theory Spec2Isabelle
  imports Main
begin

section \<open>Errors\<close>

text \<open>
  Go errors are values. The constructors follow the calls that build them in the source:
  \<^verbatim>\<open>errors.New(msg)\<close>, \<^verbatim>\<open>errors.Wrap(err, msg)\<close>, \<^verbatim>\<open>errors.Wrapf(err, format, args)\<close> and
  \<^verbatim>\<open>fmt.Errorf(format, args)\<close>, the last two with the format string and the arguments kept
  apart. The remaining constructors are the errors that the operating system and the Go
  standard library hand to the code.
\<close>

datatype error =
    ErrorsNew string
  | ErrorsWrap error string
  | ErrorsWrapf error string "string list"
  | FmtErrorf string "fmt_arg list"
  | OsError string
  | JsonSyntaxError
  | JsonUnmarshalTypeError string string
  | JsonMarshalerError error
  | TimeParseError string
  | FlagParsingError error string
  | Panic string
and fmt_arg = ArgString string | ArgError error

section \<open>The command \<^verbatim>\<open>profiles use\<close>\<close>

text \<open>
  The configuration of package \<^verbatim>\<open>install\<close> is not part of the sources at hand. Of its
  content only the name of the current profile matters here; the rest is kept opaque.
\<close>

record config =
  current_profile :: string
  other_settings :: string

definition SetCurrentProfile :: "string \<Rightarrow> config \<Rightarrow> config" where
  "SetCurrentProfile name c = c\<lparr>current_profile := name\<rparr>"

text \<open>The calls that \<^verbatim>\<open>profileUseCommand\<close> makes to other packages, in the order made.\<close>

datatype call =
    CallLoadProfile string
  | CallNewLocationManager
  | CallConfiguration
  | CallSetCurrentProfile string
  | CallWriteConfigFile string config

text \<open>
  The world outside the command: the stored configuration file and the log of calls.
\<close>

record world =
  config_file :: config
  calls :: "call list"

text \<open>
  What the collaborators answer. \<^verbatim>\<open>profile.LoadProfile\<close> returns a handle that the command
  discards, so only its error is kept. \<^verbatim>\<open>install.Configuration\<close> reads the stored file
  unless it fails; \<^verbatim>\<open>install.WriteConfigFile\<close> replaces the stored file unless it fails.
\<close>

record use_env =
  LoadProfile :: "string \<Rightarrow> error option"
  NewLocationManager :: "error + string"
  Configuration_error :: "error option"
  WriteConfigFile_error :: "error option"

definition record_call :: "call \<Rightarrow> world \<Rightarrow> world" where
  "record_call c w = w\<lparr>calls := calls w @ [c]\<rparr>"

definition profileUseCommand :: "use_env \<Rightarrow> string list \<Rightarrow> world \<Rightarrow> error option \<times> world" where
  "profileUseCommand env args w =
     (case args of
        [] \<Rightarrow> (Some (ErrorsNew ''use requires an argument''), w)
      | profileName # _ \<Rightarrow>
          let w1 = record_call (CallLoadProfile profileName) w in
          (case LoadProfile env profileName of
             Some err \<Rightarrow>
               (Some (FmtErrorf ''cannot use profile %q: %v''
                        [ArgString profileName, ArgError err]), w1)
           | None \<Rightarrow>
               let w2 = record_call CallNewLocationManager w1 in
               (case NewLocationManager env of
                  Inl err \<Rightarrow>
                    (Some (FmtErrorf ''error fetching profile: %w'' [ArgError err]), w2)
                | Inr location \<Rightarrow>
                    let w3 = record_call CallConfiguration w2 in
                    (case Configuration_error env of
                       Some err \<Rightarrow>
                         (Some (FmtErrorf ''failed to load current configuration: %w''
                                  [ArgError err]), w3)
                     | None \<Rightarrow>
                         let cfg = SetCurrentProfile profileName (config_file w3);
                             w4 = record_call (CallSetCurrentProfile profileName) w3;
                             w5 = record_call (CallWriteConfigFile location cfg) w4
                         in (case WriteConfigFile_error env of
                               Some err \<Rightarrow>
                                 (Some (FmtErrorf ''failed to store configuration: %w''
                                          [ArgError err]), w5)
                             | None \<Rightarrow> (None, w5\<lparr>config_file := cfg\<rparr>))))))"

fun touches_config :: "call \<Rightarrow> bool" where
  "touches_config (CallLoadProfile _) = False"
| "touches_config CallNewLocationManager = False"
| "touches_config CallConfiguration = True"
| "touches_config (CallSetCurrentProfile _) = True"
| "touches_config (CallWriteConfigFile _ _) = True"

section \<open>Strings as byte sequences, UTF-8\<close>

text \<open>
  A Go string is a sequence of bytes, here a \<^typ>\<open>string\<close>; a byte is read as a number with
  \<^const>\<open>of_char\<close>. \<^verbatim>\<open>utf8.DecodeRuneInString\<close> returns the code point at the head of the bytes
  and its width, and \<^verbatim>\<open>(RuneError, 1)\<close> for a byte that starts no well-formed encoding. The
  package's table \<^verbatim>\<open>first\<close> and its \<^verbatim>\<open>acceptRanges\<close> are written out as the byte ranges
  they hold; masks and shifts are written as \<open>mod\<close> and multiplication.
\<close>

definition RuneError :: nat where
  "RuneError = 0xFFFD"

definition DecodeRuneInString :: "string \<Rightarrow> nat \<times> nat" where
  "DecodeRuneInString s =
     (case s of
        [] \<Rightarrow> (RuneError, 0)
      | c0 # _ \<Rightarrow>
          let s0 = (of_char c0 :: nat) in
          if s0 < 0x80 then (s0, 1)
          else if s0 < 0xC2 \<or> 0xF4 < s0 then (RuneError, 1)
          else
            let sz = (if s0 < 0xE0 then 2 else if s0 < 0xF0 then 3 else 4 :: nat);
                lo = (if s0 = 0xE0 then 0xA0 else if s0 = 0xF0 then 0x90 else 0x80 :: nat);
                hi = (if s0 = 0xED then 0x9F else if s0 = 0xF4 then 0x8F else 0xBF :: nat)
            in
            if length s < sz then (RuneError, 1)
            else
              let s1 = (of_char (s ! 1) :: nat) in
              if s1 < lo \<or> hi < s1 then (RuneError, 1)
              else if sz \<le> 2 then ((s0 mod 32) * 64 + s1 mod 64, 2)
              else
                let s2 = (of_char (s ! 2) :: nat) in
                if s2 < 0x80 \<or> 0xBF < s2 then (RuneError, 1)
                else if sz \<le> 3 then ((s0 mod 16) * 4096 + (s1 mod 64) * 64 + s2 mod 64, 3)
                else
                  let s3 = (of_char (s ! 3) :: nat) in
                  if s3 < 0x80 \<or> 0xBF < s3 then (RuneError, 1)
                  else ((s0 mod 8) * 262144 + (s1 mod 64) * 4096 + (s2 mod 64) * 64
                          + s3 mod 64, 4))"

text \<open>
  \<^verbatim>\<open>utf8.AppendRune\<close>: the UTF-8 encoding of a code point, that of \<^verbatim>\<open>RuneError\<close> for a
  surrogate or a value beyond \<^verbatim>\<open>MaxRune\<close>.
\<close>

definition AppendRune :: "nat \<Rightarrow> string" where
  "AppendRune r =
     (if r \<le> 0x7F then [char_of r]
      else if r \<le> 0x7FF then [char_of (0xC0 + r div 64), char_of (0x80 + r mod 64)]
      else if 0x10FFFF < r \<or> (0xD800 \<le> r \<and> r \<le> 0xDFFF) then [CHR 0xEF, CHR 0xBF, CHR 0xBD]
      else if r \<le> 0xFFFF then
        [char_of (0xE0 + r div 4096), char_of (0x80 + (r div 64) mod 64),
         char_of (0x80 + r mod 64)]
      else
        [char_of (0xF0 + r div 262144), char_of (0x80 + (r div 4096) mod 64),
         char_of (0x80 + (r div 64) mod 64), char_of (0x80 + r mod 64)])"

text \<open>\<^verbatim>\<open>utf8.ValidString\<close>: every byte belongs to a well-formed encoding.\<close>

fun ValidString :: "string \<Rightarrow> bool" where
  "ValidString [] = True"
| "ValidString (c # cs) =
     (case DecodeRuneInString (c # cs) of (r, n) \<Rightarrow>
        \<not> (r = RuneError \<and> n = 1) \<and> n - 1 \<le> length cs \<and> ValidString (drop (n - 1) cs))"

section \<open>JSON string literals as \<^verbatim>\<open>encoding/json\<close> writes them\<close>

text \<open>
  \<^verbatim>\<open>encodeState.string\<close> with \<^verbatim>\<open>escapeHTML\<close> set, which is what \<^verbatim>\<open>json.NewEncoder\<close> and
  \<^verbatim>\<open>json.Marshal\<close> use. Bytes in \<^verbatim>\<open>htmlSafeSet\<close> are copied. Other ASCII bytes are escaped:
  backslash and quote with a backslash, newline, carriage return and tab by letter, the
  rest (control bytes and \<^verbatim>\<open><\<close>, \<^verbatim>\<open>>\<close>, \<^verbatim>\<open>&\<close>) as \<^verbatim>\<open>\u00XX\<close>. A byte that is not valid
  UTF-8 is replaced by the escape of U+FFFD; U+2028 and U+2029 are escaped; every other
  code point is copied as its bytes. The source copies runs of unescaped bytes at once
  (its index \<^verbatim>\<open>start\<close>); the bytes produced are the same.
\<close>

definition hex :: string where
  "hex = ''0123456789abcdef''"

definition htmlSafeSet :: "nat \<Rightarrow> bool" where
  "htmlSafeSet b \<longleftrightarrow>
     0x20 \<le> b \<and> b < 0x80 \<and> b \<noteq> 0x22 \<and> b \<noteq> 0x26 \<and> b \<noteq> 0x3C \<and> b \<noteq> 0x3E \<and> b \<noteq> 0x5C"

definition escape_byte :: "char \<Rightarrow> string" where
  "escape_byte c =
     (let b = (of_char c :: nat) in
      if b = 0x5C \<or> b = 0x22 then [CHR 0x5C, c]
      else if b = 0x0A then [CHR 0x5C, CHR ''n'']
      else if b = 0x0D then [CHR 0x5C, CHR ''r'']
      else if b = 0x09 then [CHR 0x5C, CHR ''t'']
      else [CHR 0x5C, CHR ''u'', CHR ''0'', CHR ''0'', hex ! (b div 16), hex ! (b mod 16)])"

fun escape :: "string \<Rightarrow> string" where
  "escape [] = []"
| "escape (c # cs) =
     (if (of_char c :: nat) < 0x80 then
        (if htmlSafeSet (of_char c) then c # escape cs else escape_byte c @ escape cs)
      else
        (case DecodeRuneInString (c # cs) of (r, n) \<Rightarrow>
           if r = RuneError \<and> n = 1 then
             [CHR 0x5C, CHR ''u'', CHR ''f'', CHR ''f'', CHR ''f'', CHR ''d''] @ escape cs
           else if r = 0x2028 \<or> r = 0x2029 then
             [CHR 0x5C, CHR ''u'', CHR ''2'', CHR ''0'', CHR ''2'', hex ! (r mod 16)]
               @ escape (drop (n - 1) cs)
           else c # take (n - 1) cs @ escape (drop (n - 1) cs)))"

definition encode_string :: "string \<Rightarrow> string" where
  "encode_string s = [CHR 0x22] @ escape s @ [CHR 0x22]"

section \<open>Times\<close>

text \<open>
  A \<^verbatim>\<open>time.Time\<close> is represented by what its methods \<^verbatim>\<open>Date\<close>, \<^verbatim>\<open>Clock\<close>, \<^verbatim>\<open>Nanosecond\<close> and
  \<^verbatim>\<open>Zone\<close> return: the calendar date and the clock in the time's own location, and the
  offset of that location in seconds east of UTC. \<open>Monotonic\<close> is the monotonic clock
  reading that \<^verbatim>\<open>time.Now\<close> attaches and that formatting ignores. The identity of the
  \<^verbatim>\<open>Location\<close> pointer is not represented.
\<close>

record Time =
  Year :: int
  Month :: nat
  Day :: nat
  Hour :: nat
  Minute :: nat
  Second :: nat
  Nanosecond :: nat
  ZoneOffset :: int
  Monotonic :: "nat option"

definition isLeap :: "int \<Rightarrow> bool" where
  "isLeap y \<longleftrightarrow> y mod 4 = 0 \<and> (y mod 100 \<noteq> 0 \<or> y mod 400 = 0)"

definition daysIn :: "nat \<Rightarrow> int \<Rightarrow> nat" where
  "daysIn m y =
     (if m = 2 then (if isLeap y then 29 else 28)
      else if m = 4 \<or> m = 6 \<or> m = 9 \<or> m = 11 then 30 else 31)"

text \<open>The values that a \<^verbatim>\<open>time.Time\<close> can have.\<close>

definition wf_Time :: "Time \<Rightarrow> bool" where
  "wf_Time t \<longleftrightarrow>
     1 \<le> Month t \<and> Month t \<le> 12 \<and> 1 \<le> Day t \<and> Day t \<le> daysIn (Month t) (Year t) \<and>
     Hour t < 24 \<and> Minute t < 60 \<and> Second t < 60 \<and> Nanosecond t < 1000000000"

definition digit :: "nat \<Rightarrow> char" where
  "digit n = ''0123456789'' ! n"

fun decimal :: "nat \<Rightarrow> string" where
  "decimal n = (if n < 10 then [digit n] else decimal (n div 10) @ [digit (n mod 10)])"

declare decimal.simps [simp del]

text \<open>\<^verbatim>\<open>appendInt(b, x, width)\<close>: the decimal form of \<open>x\<close>, zero-padded to \<open>width\<close>.\<close>

definition appendInt :: "int \<Rightarrow> nat \<Rightarrow> string" where
  "appendInt x width =
     (let ds = decimal (nat \<bar>x\<bar>) in
      (if x < 0 then ''-'' else []) @ replicate (width - length ds) (CHR ''0'') @ ds)"

definition trim_zeros :: "string \<Rightarrow> string" where
  "trim_zeros b = rev (dropWhile (\<lambda>c. c = CHR ''0'') (rev b))"

text \<open>
  \<^verbatim>\<open>appendNano\<close> for the layout element \<^verbatim>\<open>.999999999\<close>: nothing for zero nanoseconds,
  otherwise a point and nine digits without their trailing zeros.
\<close>

definition appendNano :: "nat \<Rightarrow> string" where
  "appendNano nanosec =
     (if nanosec = 0 then []
      else
        let b = trim_zeros (''.'' @ appendInt (int nanosec) 9)
        in if b \<noteq> [] \<and> last b = CHR ''.'' then butlast b else b)"

text \<open>
  \<^verbatim>\<open>Time.appendFormatRFC3339(b, nanos)\<close>, which \<^verbatim>\<open>Format(time.RFC3339)\<close> and the JSON
  marshaller run. Go's integer division truncates towards zero, so the minutes of a
  negative offset are computed on its absolute value.
\<close>

definition appendZone :: "int \<Rightarrow> string" where
  "appendZone off =
     (if off = 0 then ''Z''
      else
        let zone = nat \<bar>off\<bar> div 60 in
        (if off \<le> - 60 then ''-'' else ''+'')
          @ appendInt (int (zone div 60)) 2 @ '':'' @ appendInt (int (zone mod 60)) 2)"

definition appendFormatRFC3339 :: "Time \<Rightarrow> bool \<Rightarrow> string" where
  "appendFormatRFC3339 t nanos =
     appendInt (Year t) 4 @ ''-'' @ appendInt (int (Month t)) 2 @ ''-''
       @ appendInt (int (Day t)) 2 @ ''T''
       @ appendInt (int (Hour t)) 2 @ '':'' @ appendInt (int (Minute t)) 2 @ '':''
       @ appendInt (int (Second t)) 2
       @ (if nanos then appendNano (Nanosecond t) else [])
       @ appendZone (ZoneOffset t)"

definition Format_RFC3339 :: "Time \<Rightarrow> string" where
  "Format_RFC3339 t = appendFormatRFC3339 t False"

text \<open>
  \<^verbatim>\<open>Time.MarshalJSON\<close>: the time in the layout \<^verbatim>\<open>RFC3339Nano\<close> between quotes. It refuses a
  year that does not take exactly four digits and a zone offset of 24 hours or more
  (\<^verbatim>\<open>appendStrictRFC3339\<close>, which inspects the bytes just formatted).
\<close>

definition Time_MarshalJSON :: "Time \<Rightarrow> error + string" where
  "Time_MarshalJSON t =
     (if Year t < 0 \<or> 10000 \<le> Year t then
        Inl (ErrorsNew ''Time.MarshalJSON: year outside of range [0,9999]'')
      else if ZoneOffset t \<noteq> 0 \<and> 24 \<le> nat \<bar>ZoneOffset t\<bar> div 60 div 60 then
        Inl (ErrorsNew ''Time.MarshalJSON: timezone hour outside of range [0,23]'')
      else Inr ([CHR 0x22] @ appendFormatRFC3339 t True @ [CHR 0x22]))"

section \<open>Profile metadata and its JSON document\<close>

record Metadata =
  Name :: string
  DateCreated :: Time
  User :: string
  Version :: string
  Path :: string

text \<open>
  The struct encoder of \<^verbatim>\<open>encoding/json\<close> for \<^verbatim>\<open>Metadata\<close>: the fields in the order of their
  declaration, each under the name of its \<^verbatim>\<open>json\<close> tag, in the compact form. The strings
  go through \<^const>\<open>encode_string\<close>, the time through its \<^verbatim>\<open>MarshalJSON\<close>, whose failure
  becomes a \<^verbatim>\<open>MarshalerError\<close>.
\<close>

definition json_key :: "string \<Rightarrow> string" where
  "json_key k = [CHR 0x22] @ k @ [CHR 0x22] @ '':''"

definition marshal_Metadata :: "Metadata \<Rightarrow> error + string" where
  "marshal_Metadata v =
     (case Time_MarshalJSON (DateCreated v) of
        Inl err \<Rightarrow> Inl (JsonMarshalerError err)
      | Inr date \<Rightarrow>
          Inr (''{'' @ json_key ''name'' @ encode_string (Name v)
                 @ '','' @ json_key ''date_created'' @ date
                 @ '','' @ json_key ''user'' @ encode_string (User v)
                 @ '','' @ json_key ''version'' @ encode_string (Version v)
                 @ '','' @ json_key ''path'' @ encode_string (Path v) @ ''}''))"

text \<open>
  \<^verbatim>\<open>json.Indent\<close> runs over the bytes of a JSON text. Inside a string literal every byte
  is copied. Outside, white space is dropped until the top-level value has ended and copied
  after that; an opening bracket asks for a new line before the next token unless that
  token closes the bracket; a comma is followed by a new line, a colon by a space, and a
  closing bracket is preceded by a new line at the outer depth. A new line is the line
  feed, the prefix and the indentation once per depth. The text given to it here comes
  from the encoder and is well formed, so the error it returns for malformed text does
  not occur and is not represented.
\<close>

datatype scan_mode = Outside | InString | InStringEsc

definition newline :: "string \<Rightarrow> string \<Rightarrow> nat \<Rightarrow> string" where
  "newline prefix indent depth = CHR 0x0A # prefix @ concat (replicate depth indent)"

definition isSpace :: "char \<Rightarrow> bool" where
  "isSpace c \<longleftrightarrow> c = CHR '' '' \<or> c = CHR 0x09 \<or> c = CHR 0x0D \<or> c = CHR 0x0A"

fun Indent_loop ::
  "string \<Rightarrow> string \<Rightarrow> scan_mode \<Rightarrow> nat \<Rightarrow> bool \<Rightarrow> bool \<Rightarrow> nat \<Rightarrow> string \<Rightarrow> string" where
  "Indent_loop prefix indent mode opened started needIndent depth [] = []"
| "Indent_loop prefix indent InString opened started needIndent depth (c # cs) =
     c # Indent_loop prefix indent
           (if c = CHR 0x5C then InStringEsc else if c = CHR 0x22 then Outside else InString)
           opened started needIndent depth cs"
| "Indent_loop prefix indent InStringEsc opened started needIndent depth (c # cs) =
     c # Indent_loop prefix indent InString opened started needIndent depth cs"
| "Indent_loop prefix indent Outside opened started needIndent depth (c # cs) =
     (if isSpace c then
        (if opened = 0 \<and> started
         then c # Indent_loop prefix indent Outside opened started needIndent depth cs
         else Indent_loop prefix indent Outside opened started needIndent depth cs)
      else if c = CHR ''}'' \<or> c = CHR '']'' then
        (if needIndent
         then c # Indent_loop prefix indent Outside (opened - 1) True False depth cs
         else newline prefix indent (depth - 1)
                @ c # Indent_loop prefix indent Outside (opened - 1) True False (depth - 1) cs)
      else
        (let depth1 = (if needIndent then depth + 1 else depth);
             pre = (if needIndent then newline prefix indent depth1 else [])
         in
         if c = CHR ''{'' \<or> c = CHR ''[''
           then pre @ c # Indent_loop prefix indent Outside (opened + 1) True True depth1 cs
         else if c = CHR '',''
           then pre @ c # newline prefix indent depth1
                  @ Indent_loop prefix indent Outside opened True False depth1 cs
         else if c = CHR '':''
           then pre @ c # CHR '' '' # Indent_loop prefix indent Outside opened True False depth1 cs
         else if c = CHR 0x22
           then pre @ c # Indent_loop prefix indent InString opened True False depth1 cs
         else pre @ c # Indent_loop prefix indent Outside opened True False depth1 cs))"

definition Indent :: "string \<Rightarrow> string \<Rightarrow> string \<Rightarrow> string" where
  "Indent src prefix indent = Indent_loop prefix indent Outside 0 False False 0 src"

text \<open>
  An \<^verbatim>\<open>io.Writer\<close> is represented by the bytes it has taken and by the error, if any, with
  which it answers a \<^verbatim>\<open>Write\<close>; a failing writer takes nothing.
\<close>

record Writer =
  written :: string
  write_error :: "error option"

definition Write :: "string \<Rightarrow> Writer \<Rightarrow> error option \<times> Writer" where
  "Write b w =
     (case write_error w of
        Some err \<Rightarrow> (Some err, w)
      | None \<Rightarrow> (None, w\<lparr>written := written w @ b\<rparr>))"

text \<open>
  \<^verbatim>\<open>Encoder.Encode\<close> after \<^verbatim>\<open>SetIndent("", "  ")\<close>: marshal, end the value with a line
  feed, indent, and hand the bytes to the writer in one \<^verbatim>\<open>Write\<close>.
\<close>

definition Encode :: "Metadata \<Rightarrow> Writer \<Rightarrow> error option \<times> Writer" where
  "Encode v w =
     (case marshal_Metadata v of
        Inl err \<Rightarrow> (Some err, w)
      | Inr b \<Rightarrow> Write (Indent (b @ [CHR 0x0A]) [] ''  '') w)"

text \<open>
  What \<^verbatim>\<open>profileMetadataContent\<close> reads from its surroundings: \<^verbatim>\<open>user.Current()\<close> (of the
  user only \<^verbatim>\<open>Username\<close> is used), \<^verbatim>\<open>time.Now()\<close> and \<^verbatim>\<open>version.CommitHash\<close>.
\<close>

record os_env =
  user_Current :: "error + string"
  time_Now :: Time
  version_CommitHash :: string

text \<open>
  \<^verbatim>\<open>profileMetadataContent(applyCtx, w)\<close>. The facts of \<^verbatim>\<open>applyCtx\<close> are a map from names to
  values; \<^verbatim>\<open>applyCtx.Fact(name)\<close> is the lookup.
\<close>

definition profileData :: "os_env \<Rightarrow> string \<Rightarrow> string \<Rightarrow> string \<Rightarrow> Metadata" where
  "profileData env currentUser profileName profilePath =
     \<lparr>Name = profileName, DateCreated = time_Now env, User = currentUser,
      Version = version_CommitHash env, Path = profilePath\<rparr>"

definition profileMetadataContent ::
  "os_env \<Rightarrow> (string \<rightharpoonup> string) \<Rightarrow> Writer \<Rightarrow> error option \<times> Writer" where
  "profileMetadataContent env Fact w =
     (case user_Current env of
        Inl err \<Rightarrow> (Some (ErrorsWrap err ''error fetching current user''), w)
      | Inr currentUser \<Rightarrow>
          (case Fact ''profile_name'' of
             None \<Rightarrow> (Some (ErrorsNew ''unknown profile name''), w)
           | Some profileName \<Rightarrow>
               (case Fact ''profile_path'' of
                  None \<Rightarrow> (Some (ErrorsNew ''unknown profile path''), w)
                | Some profilePath \<Rightarrow>
                    (case Encode (profileData env currentUser profileName profilePath) w of
                       (Some err, w') \<Rightarrow> (Some (ErrorsWrap err ''error marshalling json''), w')
                     | (None, w') \<Rightarrow> (None, w')))))"

section \<open>The command \<^verbatim>\<open>profiles list\<close>\<close>

text \<open>
  \<^verbatim>\<open>json.Marshal\<close> of a slice of \<^verbatim>\<open>Metadata\<close>: the elements in the compact form, separated
  by commas, between square brackets; the first element that fails to marshal fails the
  whole. (A nil slice would marshal to \<^verbatim>\<open>null\<close>; the command never passes an empty one.)
\<close>

fun marshal_elements :: "Metadata list \<Rightarrow> error + string list" where
  "marshal_elements [] = Inr []"
| "marshal_elements (v # vs) =
     (case marshal_Metadata v of
        Inl err \<Rightarrow> Inl err
      | Inr b \<Rightarrow>
          (case marshal_elements vs of
             Inl err \<Rightarrow> Inl err
           | Inr bs \<Rightarrow> Inr (b # bs)))"

fun join_commas :: "string list \<Rightarrow> string" where
  "join_commas [] = []"
| "join_commas [b] = b"
| "join_commas (b # bs) = b @ '','' @ join_commas bs"

definition Marshal_list :: "Metadata list \<Rightarrow> error + string" where
  "Marshal_list vs =
     (case marshal_elements vs of
        Inl err \<Rightarrow> Inl err
      | Inr bs \<Rightarrow> Inr (''['' @ join_commas bs @ '']''))"

text \<open>
  What the command sends to the standard output: lines and text printed with \<^verbatim>\<open>fmt\<close>, and
  tables rendered by the \<^verbatim>\<open>tablewriter\<close>. A table is kept as the data and the settings the
  command gives to the writer; how the writer draws them (borders, wrapping, colours) is its
  own business.
\<close>

record table =
  header :: "string list"
  auto_merge_cells :: bool
  row_line :: bool
  rows :: "string list list"

datatype stdout_event = Println string | Print string | Render table

definition formatJSON :: "Metadata list \<Rightarrow> stdout_event list \<Rightarrow> error option \<times> stdout_event list" where
  "formatJSON profileList out =
     (case Marshal_list profileList of
        Inl err \<Rightarrow> (Some (ErrorsWrap err ''error listing all profiles in JSON format''), out)
      | Inr data \<Rightarrow> (None, out @ [Print data]))"

text \<open>\<^verbatim>\<open>profileToList\<close>: the loop appends one row for each profile.\<close>

definition profile_row :: "Metadata \<Rightarrow> string list" where
  "profile_row profile =
     [Name profile, Format_RFC3339 (DateCreated profile), User profile, Version profile,
      Path profile]"

fun profileToList_loop :: "Metadata list \<Rightarrow> string list list \<Rightarrow> string list list" where
  "profileToList_loop [] profileList = profileList"
| "profileToList_loop (profile # profiles) profileList =
     profileToList_loop profiles (profileList @ [profile_row profile])"

definition profileToList :: "Metadata list \<Rightarrow> string list list" where
  "profileToList profiles = profileToList_loop profiles []"

definition formatTable :: "Metadata list \<Rightarrow> stdout_event list \<Rightarrow> error option \<times> stdout_event list" where
  "formatTable profileList out =
     (let profilesTable = profileToList profileList;
          tbl = \<lparr>header = [''Name'', ''Date Created'', ''User'', ''Version'', ''Path''],
                 auto_merge_cells = False, row_line = True, rows = profilesTable\<rparr>
      in (None, out @ [Render tbl]))"

definition jsonFormat :: string where
  "jsonFormat = ''json''"

definition tableFormat :: string where
  "tableFormat = ''table''"

text \<open>
  The collaborators of \<^verbatim>\<open>profileListCommand\<close>: the location manager (of which the command
  uses \<^verbatim>\<open>ProfileDir()\<close>), \<^verbatim>\<open>profile.FetchAllProfiles\<close>, and the value of the format flag as
  \<^verbatim>\<open>cmd.Flags().GetString\<close> returns it. \<^verbatim>\<open>cobraext.FlagParsingError\<close> and the name of the flag
  are not in the sources at hand; the error is kept as a constructor and the name as a
  parameter.
\<close>

record list_env =
  list_NewLocationManager :: "error + string"
  FetchAllProfiles :: "string \<Rightarrow> error + Metadata list"
  ProfileFormatFlagName :: string
  Flags_GetString :: "string \<Rightarrow> error + string"

definition profileListCommand :: "list_env \<Rightarrow> stdout_event list \<Rightarrow> error option \<times> stdout_event list" where
  "profileListCommand env out =
     (case list_NewLocationManager env of
        Inl err \<Rightarrow> (Some (ErrorsWrap err ''error fetching profile''), out)
      | Inr profileDir \<Rightarrow>
          (case FetchAllProfiles env profileDir of
             Inl err \<Rightarrow> (Some (ErrorsWrap err ''error listing all profiles''), out)
           | Inr profileList \<Rightarrow>
               if length profileList = 0
               then (None, out @ [Println ''There are no profiles yet.''])
               else
                 (case Flags_GetString env (ProfileFormatFlagName env) of
                    Inl err \<Rightarrow> (Some (FlagParsingError err (ProfileFormatFlagName env)), out)
                  | Inr format \<Rightarrow>
                      if format = tableFormat then formatTable profileList out
                      else if format = jsonFormat then formatJSON profileList out
                      else (Some (FmtErrorf ''format %s not supported'' [ArgString format]),
                            out))))"

section \<open>Reading JSON string literals\<close>

text \<open>
  The scanner of \<^verbatim>\<open>encoding/json\<close> inside a string literal, from the byte after the opening
  quote: it ends at the closing quote, accepts a backslash followed by one of
  \<^verbatim>\<open>b f n r t \ / "\<close> or by \<^verbatim>\<open>u\<close> and four hexadecimal digits, and refuses control bytes.
  The result is the bytes between the quotes, as they stand, and the bytes after the
  closing quote.
\<close>

definition isHexDigit :: "char \<Rightarrow> bool" where
  "isHexDigit c \<longleftrightarrow>
     (let b = (of_char c :: nat) in
      (0x30 \<le> b \<and> b \<le> 0x39) \<or> (0x61 \<le> b \<and> b \<le> 0x66) \<or> (0x41 \<le> b \<and> b \<le> 0x46))"

fun scan_string :: "string \<Rightarrow> (string \<times> string) option" where
  "scan_string [] = None"
| "scan_string (c # cs) =
     (if c = CHR 0x22 then Some ([], cs)
      else if c = CHR 0x5C then
        (case cs of
           [] \<Rightarrow> None
         | e # r \<Rightarrow>
             if e \<in> set ''bfnrt/'' \<or> e = CHR 0x5C \<or> e = CHR 0x22 then
               map_option (\<lambda>(b, rest). (c # e # b, rest)) (scan_string r)
             else if e = CHR ''u'' \<and> 4 \<le> length r \<and> list_all isHexDigit (take 4 r) then
               map_option (\<lambda>(b, rest). (c # e # take 4 r @ b, rest)) (scan_string (drop 4 r))
             else None)
      else if (of_char c :: nat) < 0x20 then None
      else map_option (\<lambda>(b, rest). (c # b, rest)) (scan_string cs))"

section \<open>Reading times\<close>

text \<open>
  \<^verbatim>\<open>parseRFC3339\<close> of package \<^verbatim>\<open>time\<close>, the parser that \<^verbatim>\<open>Time.UnmarshalJSON\<close> tries first.
  Its local function \<^verbatim>\<open>parseUint\<close> reads an unsigned decimal number and checks its range;
  the source records a failure in a flag and goes on, and returns no time when the flag is
  set at the end, which is the same as stopping at the first failure. The fraction and the
  zone, parsed in line in the source, are separate definitions here. A time with an offset
  is \<^verbatim>\<open>Date(...)\<close> in UTC moved back by the offset and placed in a zone of that offset: its
  calendar fields in its own location are the ones read.
\<close>

definition isDigit :: "char \<Rightarrow> bool" where
  "isDigit c \<longleftrightarrow> 0x30 \<le> (of_char c :: nat) \<and> (of_char c :: nat) \<le> 0x39"

definition digits_value :: "string \<Rightarrow> nat" where
  "digits_value s = foldl (\<lambda>x c. x * 10 + (of_char c - 0x30)) 0 s"

definition parseUint :: "string \<Rightarrow> nat \<Rightarrow> nat \<Rightarrow> nat option" where
  "parseUint s lo hi =
     (if list_all isDigit s then
        (let x = digits_value s in if x < lo \<or> hi < x then None else Some x)
      else None)"

definition parseNanoseconds :: "string \<Rightarrow> nat \<Rightarrow> nat" where
  "parseNanoseconds value nbytes =
     (let nb = min nbytes 10
      in digits_value (take (nb - 1) (tl value)) * 10 ^ (10 - nb))"

definition parse_fraction :: "string \<Rightarrow> nat \<times> string" where
  "parse_fraction s =
     (if 2 \<le> length s \<and> s ! 0 = CHR ''.'' \<and> isDigit (s ! 1) then
        (let n = 1 + length (takeWhile isDigit (tl s))
         in (parseNanoseconds s n, drop n s))
      else (0, s))"

definition parse_zone :: "string \<Rightarrow> int option" where
  "parse_zone s =
     (if s = ''Z'' then Some 0
      else if length s \<noteq> 6 then None
      else
        (case parseUint (take 2 (drop 1 s)) 0 23 of
           None \<Rightarrow> None
         | Some hr \<Rightarrow>
             (case parseUint (take 2 (drop 4 s)) 0 59 of
                None \<Rightarrow> None
              | Some mm \<Rightarrow>
                  if \<not> ((s ! 0 = CHR ''-'' \<or> s ! 0 = CHR ''+'') \<and> s ! 3 = CHR '':'') then None
                  else Some ((if s ! 0 = CHR ''-'' then - 1 else 1)
                               * int ((hr * 60 + mm) * 60)))))"

definition parseRFC3339 :: "string \<Rightarrow> Time option" where
  "parseRFC3339 s =
     (if length s < 19 then None
      else
        (case parseUint (take 4 s) 0 9999 of None \<Rightarrow> None | Some year \<Rightarrow>
        (case parseUint (take 2 (drop 5 s)) 1 12 of None \<Rightarrow> None | Some month \<Rightarrow>
        (case parseUint (take 2 (drop 8 s)) 1 (daysIn month (int year)) of
           None \<Rightarrow> None | Some day \<Rightarrow>
        (case parseUint (take 2 (drop 11 s)) 0 23 of None \<Rightarrow> None | Some hour \<Rightarrow>
        (case parseUint (take 2 (drop 14 s)) 0 59 of None \<Rightarrow> None | Some minute \<Rightarrow>
        (case parseUint (take 2 (drop 17 s)) 0 59 of None \<Rightarrow> None | Some sec \<Rightarrow>
           if \<not> (s ! 4 = CHR ''-'' \<and> s ! 7 = CHR ''-'' \<and> s ! 10 = CHR ''T''
                 \<and> s ! 13 = CHR '':'' \<and> s ! 16 = CHR '':'') then None
           else
             (case parse_fraction (drop 19 s) of (nsec, z) \<Rightarrow>
                (case parse_zone z of
                   None \<Rightarrow> None
                 | Some zoneOffset \<Rightarrow>
                     Some \<lparr>Year = int year, Month = month, Day = day, Hour = hour,
                           Minute = minute, Second = sec, Nanosecond = nsec,
                           ZoneOffset = zoneOffset, Monotonic = None\<rparr>)))))))))"

section \<open>Reading JSON\<close>

text \<open>
  A JSON text as \<^verbatim>\<open>encoding/json\<close> reads it. Strings and numbers keep their bytes as they
  stand in the text (a string those between its quotes), since the decoder hands these
  bytes on.
\<close>

datatype json =
    JNull
  | JBool bool
  | JNumber string
  | JString string
  | JArray "json list"
  | JObject "(string \<times> json) list"

text \<open>
  The scanner's number: an optional minus, then zero or a digit from one to nine followed
  by digits, then optionally a point and at least one digit, then optionally an exponent
  of \<^verbatim>\<open>e\<close> or \<^verbatim>\<open>E\<close>, an optional sign and at least one digit.
\<close>

definition skip_space :: "string \<Rightarrow> string" where
  "skip_space s = dropWhile isSpace s"

definition scan_int :: "string \<Rightarrow> (string \<times> string) option" where
  "scan_int s =
     (case s of
        [] \<Rightarrow> None
      | c # r \<Rightarrow>
          if c = CHR ''0'' then Some ([c], r)
          else if isDigit c then Some (c # takeWhile isDigit r, dropWhile isDigit r)
          else None)"

definition scan_frac :: "string \<Rightarrow> (string \<times> string) option" where
  "scan_frac s =
     (case s of
        [] \<Rightarrow> Some ([], [])
      | c # r \<Rightarrow>
          if c = CHR ''.'' then
            (if takeWhile isDigit r = [] then None
             else Some (c # takeWhile isDigit r, dropWhile isDigit r))
          else Some ([], s))"

definition scan_exp :: "string \<Rightarrow> (string \<times> string) option" where
  "scan_exp s =
     (case s of
        [] \<Rightarrow> Some ([], [])
      | c # r \<Rightarrow>
          if c = CHR ''e'' \<or> c = CHR ''E'' then
            (let sign = (case r of [] \<Rightarrow> [] | x # _ \<Rightarrow>
                           if x = CHR ''+'' \<or> x = CHR ''-'' then [x] else []);
                 r1 = drop (length sign) r
             in if takeWhile isDigit r1 = [] then None
                else Some (c # sign @ takeWhile isDigit r1, dropWhile isDigit r1))
          else Some ([], s))"

definition scan_number :: "string \<Rightarrow> (string \<times> string) option" where
  "scan_number s =
     (let sign = (case s of [] \<Rightarrow> [] | c # _ \<Rightarrow> if c = CHR ''-'' then [c] else [])
      in case scan_int (drop (length sign) s) of
           None \<Rightarrow> None
         | Some (i, s2) \<Rightarrow>
             (case scan_frac s2 of
                None \<Rightarrow> None
              | Some (f, s3) \<Rightarrow>
                  (case scan_exp s3 of
                     None \<Rightarrow> None
                   | Some (e, s4) \<Rightarrow> Some (sign @ i @ f @ e, s4))))"

definition scan_literal :: "string \<Rightarrow> (json \<times> string) option" where
  "scan_literal s =
     (if take 4 s = ''true'' then Some (JBool True, drop 4 s)
      else if take 5 s = ''false'' then Some (JBool False, drop 5 s)
      else if take 4 s = ''null'' then Some (JNull, drop 4 s)
      else None)"

text \<open>
  \<^verbatim>\<open>json.Unmarshal\<close> first checks the whole text with its scanner (\<^verbatim>\<open>checkValid\<close>), a
  push-down automaton over the bytes, and then walks the text again to decode it. Here the
  check builds the value it has recognised, by recursive descent. The first argument bounds
  the number of nested calls; every call consumes a byte before it calls again, so a bound
  above the length of the text is never reached (lemma \<open>parse_value_fuel\<close>). The second
  argument is the number of brackets open; the scanner refuses to open more than
  \<^verbatim>\<open>maxNestingDepth\<close>. After a comma an object needs a key and an array a value, and the
  text must end after the value, white space apart.
\<close>

definition maxNestingDepth :: nat where
  "maxNestingDepth = 10000"

fun parse_value :: "nat \<Rightarrow> nat \<Rightarrow> string \<Rightarrow> (json \<times> string) option"
  and parse_members :: "nat \<Rightarrow> nat \<Rightarrow> string \<Rightarrow> ((string \<times> json) list \<times> string) option"
  and parse_elements :: "nat \<Rightarrow> nat \<Rightarrow> string \<Rightarrow> (json list \<times> string) option"
where
  "parse_value 0 d s = None"
| "parse_value (Suc n) d s =
     (case skip_space s of
        [] \<Rightarrow> None
      | c # r \<Rightarrow>
          if c = CHR ''{'' then
            (if maxNestingDepth \<le> d then None
             else
               (case skip_space r of
                  [] \<Rightarrow> None
                | c' # r' \<Rightarrow>
                    if c' = CHR ''}'' then Some (JObject [], r')
                    else map_option (\<lambda>(ms, rest). (JObject ms, rest))
                           (parse_members n (Suc d) r)))
          else if c = CHR ''['' then
            (if maxNestingDepth \<le> d then None
             else
               (case skip_space r of
                  [] \<Rightarrow> None
                | c' # r' \<Rightarrow>
                    if c' = CHR '']'' then Some (JArray [], r')
                    else map_option (\<lambda>(vs, rest). (JArray vs, rest))
                           (parse_elements n (Suc d) r)))
          else if c = CHR 0x22 then
            map_option (\<lambda>(b, rest). (JString b, rest)) (scan_string r)
          else if c = CHR ''-'' \<or> isDigit c then
            map_option (\<lambda>(b, rest). (JNumber b, rest)) (scan_number (c # r))
          else scan_literal (c # r))"
| "parse_members 0 d s = None"
| "parse_members (Suc n) d s =
     (case skip_space s of
        [] \<Rightarrow> None
      | c # r \<Rightarrow>
          if c \<noteq> CHR 0x22 then None
          else
            (case scan_string r of
               None \<Rightarrow> None
             | Some (k, r1) \<Rightarrow>
                 (case skip_space r1 of
                    [] \<Rightarrow> None
                  | c1 # r2 \<Rightarrow>
                      if c1 \<noteq> CHR '':'' then None
                      else
                        (case parse_value n d r2 of
                           None \<Rightarrow> None
                         | Some (v, r3) \<Rightarrow>
                             (case skip_space r3 of
                                [] \<Rightarrow> None
                              | c3 # r4 \<Rightarrow>
                                  if c3 = CHR '','' then
                                    map_option (\<lambda>(ms, rest). ((k, v) # ms, rest))
                                      (parse_members n d r4)
                                  else if c3 = CHR ''}'' then Some ([(k, v)], r4)
                                  else None)))))"
| "parse_elements 0 d s = None"
| "parse_elements (Suc n) d s =
     (case parse_value n d s of
        None \<Rightarrow> None
      | Some (v, r3) \<Rightarrow>
          (case skip_space r3 of
             [] \<Rightarrow> None
           | c3 # r4 \<Rightarrow>
               if c3 = CHR '','' then
                 map_option (\<lambda>(vs, rest). (v # vs, rest)) (parse_elements n d r4)
               else if c3 = CHR '']'' then Some ([v], r4)
               else None))"

definition parse_json :: "string \<Rightarrow> json option" where
  "parse_json data =
     (case parse_value (Suc (length data)) 0 data of
        None \<Rightarrow> None
      | Some (v, rest) \<Rightarrow> if skip_space rest = [] then Some v else None)"

section \<open>Decoding JSON into \<^verbatim>\<open>Metadata\<close>\<close>

text \<open>
  \<^verbatim>\<open>unquoteBytes\<close> on the bytes between the quotes of a literal: escapes are replaced by the
  bytes they stand for, \<^verbatim>\<open>\uXXXX\<close> by the UTF-8 encoding of its code point (two escapes that
  form a surrogate pair by the encoding of their code point, a lone surrogate by that of
  U+FFFD), and every code point of the text is decoded and encoded again, which turns
  invalid bytes into U+FFFD. (The source first skips the longest prefix that needs no change
  and copies it as it is; by lemma \<open>AppendRune_DecodeRune\<close> the loop below, run from the start,
  produces the same bytes.)
\<close>

definition hex_value :: "char \<Rightarrow> nat option" where
  "hex_value c =
     (let b = (of_char c :: nat) in
      if 0x30 \<le> b \<and> b \<le> 0x39 then Some (b - 0x30)
      else if 0x61 \<le> b \<and> b \<le> 0x66 then Some (b - 0x61 + 10)
      else if 0x41 \<le> b \<and> b \<le> 0x46 then Some (b - 0x41 + 10)
      else None)"

definition getu4 :: "string \<Rightarrow> nat option" where
  "getu4 s =
     (if length s < 6 \<or> s ! 0 \<noteq> CHR 0x5C \<or> s ! 1 \<noteq> CHR ''u'' then None
      else
        (case (hex_value (s ! 2), hex_value (s ! 3), hex_value (s ! 4), hex_value (s ! 5)) of
           (Some a, Some b, Some c, Some d) \<Rightarrow> Some (((a * 16 + b) * 16 + c) * 16 + d)
         | _ \<Rightarrow> None))"

fun unquote :: "string \<Rightarrow> string option" where
  "unquote [] = Some []"
| "unquote (c # cs) =
     (if c = CHR 0x5C then
        (case cs of
           [] \<Rightarrow> None
         | e # r \<Rightarrow>
             if e = CHR 0x22 \<or> e = CHR 0x5C \<or> e = CHR ''/'' \<or> e = CHR 0x27
               then map_option ((#) e) (unquote r)
             else if e = CHR ''b'' then map_option ((#) (CHR 0x08)) (unquote r)
             else if e = CHR ''f'' then map_option ((#) (CHR 0x0C)) (unquote r)
             else if e = CHR ''n'' then map_option ((#) (CHR 0x0A)) (unquote r)
             else if e = CHR ''r'' then map_option ((#) (CHR 0x0D)) (unquote r)
             else if e = CHR ''t'' then map_option ((#) (CHR 0x09)) (unquote r)
             else if e = CHR ''u'' then
               (case getu4 (c # cs) of
                  None \<Rightarrow> None
                | Some rr \<Rightarrow>
                    if 0xD800 \<le> rr \<and> rr < 0xE000 then
                      (case getu4 (drop 4 r) of
                         None \<Rightarrow> map_option ((@) (AppendRune 0xFFFD)) (unquote (drop 4 r))
                       | Some rr1 \<Rightarrow>
                           if rr < 0xDC00 \<and> 0xDC00 \<le> rr1 \<and> rr1 < 0xE000 then
                             map_option
                               ((@) (AppendRune
                                       ((rr - 0xD800) * 1024 + (rr1 - 0xDC00) + 0x10000)))
                               (unquote (drop 10 r))
                           else map_option ((@) (AppendRune 0xFFFD)) (unquote (drop 4 r)))
                    else map_option ((@) (AppendRune rr)) (unquote (drop 4 r)))
             else None)
      else if c = CHR 0x22 \<or> (of_char c :: nat) < 0x20 then None
      else if (of_char c :: nat) < 0x80 then map_option ((#) c) (unquote cs)
      else
        (case DecodeRuneInString (c # cs) of (rr, n) \<Rightarrow>
           map_option ((@) (AppendRune rr)) (unquote (drop (n - 1) cs))))"

text \<open>
  The field that a key of the object addresses: the field of exactly this name, else the
  first field whose name equals the key up to case. For the latter the decoder uses
  \<^verbatim>\<open>equalFoldRight\<close> for names with the letters \<^verbatim>\<open>s\<close> or \<^verbatim>\<open>k\<close> (which also match U+017F and
  U+212A), and simpler functions for the other names, which on such names decide the same.
\<close>

datatype field = FName | FDateCreated | FUser | FVersion | FPath

fun field_name :: "field \<Rightarrow> string" where
  "field_name FName = ''name''"
| "field_name FDateCreated = ''date_created''"
| "field_name FUser = ''user''"
| "field_name FVersion = ''version''"
| "field_name FPath = ''path''"

definition fields :: "field list" where
  "fields = [FName, FDateCreated, FUser, FVersion, FPath]"

definition caseMask :: "char \<Rightarrow> nat" where
  "caseMask c = (of_char c :: nat) - (if (of_char c :: nat) div 32 mod 2 = 1 then 32 else 0)"

fun equalFold :: "string \<Rightarrow> string \<Rightarrow> bool" where
  "equalFold [] t = (t = [])"
| "equalFold (sb # s) [] = False"
| "equalFold (sb # s) (tb # t) =
     (if (of_char tb :: nat) < 0x80 then
        (sb = tb \<or> (0x41 \<le> caseMask sb \<and> caseMask sb \<le> 0x5A \<and> caseMask sb = caseMask tb))
          \<and> equalFold s t
      else
        (case DecodeRuneInString (tb # t) of (tr, n) \<Rightarrow>
           (((sb = CHR ''s'' \<or> sb = CHR ''S'') \<and> tr = 0x17F) \<or>
            ((sb = CHR ''k'' \<or> sb = CHR ''K'') \<and> tr = 0x212A))
             \<and> equalFold s (drop (n - 1) t)))"

definition find_field :: "string \<Rightarrow> field option" where
  "find_field key =
     (case find (\<lambda>f. field_name f = key) fields of
        Some f \<Rightarrow> Some f
      | None \<Rightarrow> find (\<lambda>f. equalFold (field_name f) key) fields)"

text \<open>
  \<^verbatim>\<open>Time.UnmarshalJSON\<close> receives the bytes of the value. It leaves the time alone for
  \<^verbatim>\<open>null\<close>, refuses what is not a string literal, and parses the bytes between the quotes
  (without unquoting them) with \<^const>\<open>parseRFC3339\<close>; what that parser does not accept goes
  to the general \<^verbatim>\<open>time.Parse\<close> with the layout \<^verbatim>\<open>RFC3339\<close>, which is a parameter here.
\<close>

fun json_kind :: "json \<Rightarrow> string" where
  "json_kind JNull = ''null''"
| "json_kind (JBool _) = ''bool''"
| "json_kind (JNumber _) = ''number''"
| "json_kind (JString _) = ''string''"
| "json_kind (JArray _) = ''array''"
| "json_kind (JObject _) = ''object''"

definition Time_UnmarshalJSON :: "(string \<Rightarrow> error + Time) \<Rightarrow> json \<Rightarrow> Time \<Rightarrow> error + Time" where
  "Time_UnmarshalJSON Parse j t =
     (case j of
        JNull \<Rightarrow> Inr t
      | JString body \<Rightarrow>
          (case parseRFC3339 body of
             Some t' \<Rightarrow> Inr t'
           | None \<Rightarrow> Parse body)
      | _ \<Rightarrow> Inl (ErrorsNew ''Time.UnmarshalJSON: input is not a JSON string''))"

text \<open>
  Storing a value into a field. A string field takes the unquoted string, ignores
  \<^verbatim>\<open>null\<close>, and for any other value records an \<^verbatim>\<open>UnmarshalTypeError\<close> and goes on; the error
  of a failed \<^verbatim>\<open>UnmarshalJSON\<close> ends the decoding at once. Of the recorded errors the first
  is returned, at the end. Members with unknown keys are skipped; of members with the same
  key the last one wins. Unquoting a literal that the scanner accepted does not fail; the
  source panics if it does.
\<close>

definition phasePanicMsg :: string where
  "phasePanicMsg = ''JSON decoder out of sync - data changing underfoot?''"

fun set_string_field :: "field \<Rightarrow> string \<Rightarrow> Metadata \<Rightarrow> Metadata" where
  "set_string_field FName s v = v\<lparr>Name := s\<rparr>"
| "set_string_field FUser s v = v\<lparr>User := s\<rparr>"
| "set_string_field FVersion s v = v\<lparr>Version := s\<rparr>"
| "set_string_field FPath s v = v\<lparr>Path := s\<rparr>"
| "set_string_field FDateCreated s v = v"

definition decode_field ::
  "(string \<Rightarrow> error + Time) \<Rightarrow> field \<Rightarrow> json \<Rightarrow> Metadata \<Rightarrow> error + Metadata \<times> error option" where
  "decode_field Parse f j v =
     (if f = FDateCreated then
        (case Time_UnmarshalJSON Parse j (DateCreated v) of
           Inl err \<Rightarrow> Inl err
         | Inr t \<Rightarrow> Inr (v\<lparr>DateCreated := t\<rparr>, None))
      else
        (case j of
           JString body \<Rightarrow>
             (case unquote body of
                None \<Rightarrow> Inl (Panic phasePanicMsg)
              | Some s \<Rightarrow> Inr (set_string_field f s v, None))
         | JNull \<Rightarrow> Inr (v, None)
         | _ \<Rightarrow> Inr (v, Some (JsonUnmarshalTypeError (json_kind j)
                                 (''Metadata.'' @ field_name f)))))"

fun decode_members ::
  "(string \<Rightarrow> error + Time) \<Rightarrow> (string \<times> json) list \<Rightarrow> Metadata \<Rightarrow> error option
     \<Rightarrow> error + Metadata" where
  "decode_members Parse [] v savedError =
     (case savedError of None \<Rightarrow> Inr v | Some err \<Rightarrow> Inl err)"
| "decode_members Parse ((k, j) # ms) v savedError =
     (case unquote k of
        None \<Rightarrow> Inl (Panic phasePanicMsg)
      | Some key \<Rightarrow>
          (case find_field key of
             None \<Rightarrow> decode_members Parse ms v savedError
           | Some f \<Rightarrow>
               (case decode_field Parse f j v of
                  Inl err \<Rightarrow> Inl err
                | Inr (v', typeError) \<Rightarrow>
                    decode_members Parse ms v'
                      (case savedError of None \<Rightarrow> typeError | Some err \<Rightarrow> Some err))))"

text \<open>
  \<^verbatim>\<open>json.Unmarshal(d, &metadata)\<close>: a syntax error for a text that is not JSON; an object
  is decoded member by member; \<^verbatim>\<open>null\<close> changes nothing; any other value is an
  \<^verbatim>\<open>UnmarshalTypeError\<close>.
\<close>

definition Unmarshal :: "(string \<Rightarrow> error + Time) \<Rightarrow> string \<Rightarrow> Metadata \<Rightarrow> error + Metadata" where
  "Unmarshal Parse data v =
     (case parse_json data of
        None \<Rightarrow> Inl JsonSyntaxError
      | Some j \<Rightarrow>
          (case j of
             JObject ms \<Rightarrow> decode_members Parse ms v None
           | JNull \<Rightarrow> Inr v
           | _ \<Rightarrow> Inl (JsonUnmarshalTypeError (json_kind j) ''Metadata'')))"

text \<open>
  \<^verbatim>\<open>loadProfileMetadata(path)\<close>, with \<^verbatim>\<open>os.ReadFile\<close> as a function from paths to contents or
  errors. On an error it returns the zero \<^verbatim>\<open>Metadata\<close>, whose time is the zero
  \<^verbatim>\<open>time.Time\<close>, January 1 of year 1, 00:00:00 UTC.
\<close>

definition zero_Time :: Time where
  "zero_Time = \<lparr>Year = 1, Month = 1, Day = 1, Hour = 0, Minute = 0, Second = 0,
                 Nanosecond = 0, ZoneOffset = 0, Monotonic = None\<rparr>"

definition zero_Metadata :: Metadata where
  "zero_Metadata = \<lparr>Name = [], DateCreated = zero_Time, User = [], Version = [], Path = []\<rparr>"

record load_env =
  ReadFile :: "string \<Rightarrow> error + string"
  time_Parse :: "string \<Rightarrow> error + Time"

definition loadProfileMetadata :: "load_env \<Rightarrow> string \<Rightarrow> Metadata \<times> error option" where
  "loadProfileMetadata env path =
     (case ReadFile env path of
        Inl err \<Rightarrow> (zero_Metadata, Some (ErrorsWrap err ''error reading metadata file''))
      | Inr d \<Rightarrow>
          (case Unmarshal (time_Parse env) d zero_Metadata of
             Inl err \<Rightarrow>
               (zero_Metadata,
                Some (ErrorsWrapf err ''error checking profile metadata file %q'' [path]))
           | Inr metadata \<Rightarrow> (metadata, None)))"

section \<open>The format of RFC 3339\<close>

text \<open>
  The specification asks for the creation date in the form of RFC 3339. This is the
  grammar of its \<^verbatim>\<open>date-time\<close> (section 5.6), with the ranges it gives for the fields: four
  digits of year, month 01-12, day 01-31, \<^verbatim>\<open>T\<close>, hour 00-23, minute 00-59, second 00-60, an
  optional fraction of a point and at least one digit, and the offset, \<^verbatim>\<open>Z\<close> or a sign with
  hour 00-23 and minute 00-59.
\<close>

definition two_digits :: "string \<Rightarrow> nat \<Rightarrow> nat \<Rightarrow> bool" where
  "two_digits s lo hi \<longleftrightarrow>
     length s = 2 \<and> list_all isDigit s \<and> lo \<le> digits_value s \<and> digits_value s \<le> hi"

definition is_time_offset :: "string \<Rightarrow> bool" where
  "is_time_offset z \<longleftrightarrow>
     z = ''Z'' \<or>
     (length z = 6 \<and> (z ! 0 = CHR ''+'' \<or> z ! 0 = CHR ''-'') \<and>
      two_digits (take 2 (drop 1 z)) 0 23 \<and> z ! 3 = CHR '':'' \<and>
      two_digits (take 2 (drop 4 z)) 0 59)"

definition is_RFC3339 :: "string \<Rightarrow> bool" where
  "is_RFC3339 s \<longleftrightarrow>
     20 \<le> length s \<and> list_all isDigit (take 4 s) \<and> s ! 4 = CHR ''-'' \<and>
     two_digits (take 2 (drop 5 s)) 1 12 \<and> s ! 7 = CHR ''-'' \<and>
     two_digits (take 2 (drop 8 s)) 1 31 \<and> s ! 10 = CHR ''T'' \<and>
     two_digits (take 2 (drop 11 s)) 0 23 \<and> s ! 13 = CHR '':'' \<and>
     two_digits (take 2 (drop 14 s)) 0 59 \<and> s ! 16 = CHR '':'' \<and>
     two_digits (take 2 (drop 17 s)) 0 60 \<and>
     (case drop 19 s of
        [] \<Rightarrow> False
      | c # r \<Rightarrow>
          if c = CHR ''.''
          then takeWhile isDigit r \<noteq> [] \<and> is_time_offset (dropWhile isDigit r)
          else is_time_offset (c # r))"

section \<open>Auxiliary notions\<close>

text \<open>
  Notions that only the proofs use: the decimal digits of a number at a fixed width, and
  the characters that occur in a formatted time.
\<close>

fun fixed :: "nat \<Rightarrow> nat \<Rightarrow> string" where
  "fixed 0 n = []"
| "fixed (Suc w) n = fixed w (n div 10) @ [digit (n mod 10)]"

definition time_char :: "char \<Rightarrow> bool" where
  "time_char c \<longleftrightarrow> c \<in> set ''0123456789-:TZ.+''"

text \<open>A line of the indented document: the key, a colon, a space, and the value.\<close>

definition member_line :: "string \<Rightarrow> string \<Rightarrow> string" where
  "member_line k lit = ''  '' @ [CHR 0x22] @ k @ [CHR 0x22] @ '': '' @ lit"

section \<open>Example inputs\<close>

text \<open>Concrete inputs on which the theorems below are instantiated.\<close>

definition missing_env :: use_env where
  "missing_env = \<lparr>LoadProfile = (\<lambda>n. if n = ''default'' then None
                                     else Some (ErrorsNew ''profile not found'')),
                  NewLocationManager = Inr ''/home/u/.elastic-package'',
                  Configuration_error = None,
                  WriteConfigFile_error = None\<rparr>"

definition default_world :: world where
  "default_world = \<lparr>config_file = \<lparr>current_profile = ''default'', other_settings = []\<rparr>,
                    calls = []\<rparr>"

definition example_time :: Time where
  "example_time = \<lparr>Year = 2023, Month = 3, Day = 9, Hour = 7, Minute = 5, Second = 0,
                    Nanosecond = 120000000, ZoneOffset = 3600, Monotonic = Some 81\<rparr>"

definition example_env :: os_env where
  "example_env = \<lparr>user_Current = Inr ''alice'', time_Now = example_time,
                   version_CommitHash = ''3f2a1bc''\<rparr>"

definition no_user_env :: os_env where
  "no_user_env = \<lparr>user_Current = Inl (OsError ''user: unknown userid 1000''),
                   time_Now = example_time, version_CommitHash = ''3f2a1bc''\<rparr>"

definition example_facts :: "string \<rightharpoonup> string" where
  "example_facts = [''profile_name'' \<mapsto> ''default'',
                    ''profile_path'' \<mapsto> ''/home/alice/.elastic-package/profiles/default'']"

definition name_only_facts :: "string \<rightharpoonup> string" where
  "name_only_facts = [''profile_name'' \<mapsto> ''default'']"

definition no_facts :: "string \<rightharpoonup> string" where
  "no_facts = Map.empty"

definition empty_writer :: Writer where
  "empty_writer = \<lparr>written = [], write_error = None\<rparr>"

definition example_metadata :: Metadata where
  "example_metadata =
     \<lparr>Name = ''default'', DateCreated = example_time, User = ''alice'', Version = ''3f2a1bc'',
      Path = ''/home/alice/.elastic-package/profiles/default''\<rparr>"

definition xml_env :: "Metadata list \<Rightarrow> list_env" where
  "xml_env ps =
     \<lparr>list_NewLocationManager = Inr ''/home/alice/.elastic-package/profiles'',
      FetchAllProfiles = (\<lambda>dir. Inr ps),
      ProfileFormatFlagName = ''format'',
      Flags_GetString = (\<lambda>flag. Inr ''xml'')\<rparr>"

section \<open>Lemmas on strings, numbers and times\<close>

lemma char_eq_nat: "c = d \<longleftrightarrow> (of_char c :: nat) = of_char d"
  by simp

lemma quote_iff: "c = CHR 0x22 \<longleftrightarrow> (of_char c :: nat) = 0x22"
  by (simp add: char_eq_nat [of c])

lemma backslash_iff: "c = CHR 0x5C \<longleftrightarrow> (of_char c :: nat) = 0x5C"
  by (simp add: char_eq_nat [of c])

lemma hex_nth_isHexDigit: "k < 16 \<Longrightarrow> isHexDigit (hex ! k)"
proof -
  have "list_all isHexDigit hex"
    by (simp add: hex_def isHexDigit_def)
  moreover have "length hex = 16" by (simp add: hex_def)
  ultimately show "k < 16 \<Longrightarrow> isHexDigit (hex ! k)"
    by (simp add: list_all_length)
qed

lemma scan_string_plain:
  "\<forall>b \<in> set bs. b \<noteq> CHR 0x22 \<and> b \<noteq> CHR 0x5C \<and> 0x20 \<le> (of_char b :: nat) \<Longrightarrow>
   scan_string (bs @ xs) = map_option (\<lambda>(b, rest). (bs @ b, rest)) (scan_string xs)"
  by (induction bs) (auto simp: option.map_comp comp_def split_def option.map_ident)

lemma DecodeRune_width:
  assumes "DecodeRuneInString (c # cs) = (r, n)"
  shows "1 \<le> n \<and> n \<le> 4 \<and> n - 1 \<le> length cs"
  using assms
  by (auto simp: DecodeRuneInString_def Let_def Suc_le_eq split: if_splits)

lemma DecodeRune_tail_bytes:
  assumes "DecodeRuneInString (c # cs) = (r, n)" and "b \<in> set (take (n - 1) cs)"
  shows "0x80 \<le> (of_char b :: nat)"
proof -
  have n: "n \<le> 4" using DecodeRune_width [OF assms(1)] by simp
  from assms(2) obtain i where i: "i < n - 1" "i < length cs" "b = cs ! i"
    by (auto simp: in_set_conv_nth)
  then have "i = 0 \<or> i = 1 \<or> i = 2" using n by arith
  then show ?thesis
    using assms(1) i
    by (auto simp: DecodeRuneInString_def Let_def nth_Cons' split: if_splits)
qed

lemma scan_string_high:
  "\<forall>b \<in> set bs. 0x80 \<le> (of_char b :: nat) \<Longrightarrow>
   scan_string (bs @ xs) = map_option (\<lambda>(b, rest). (bs @ b, rest)) (scan_string xs)"
  by (rule scan_string_plain) (auto simp: quote_iff backslash_iff)

lemma scan_string_escape_byte:
  assumes "(of_char c :: nat) < 0x80" and "\<not> htmlSafeSet (of_char c)"
  shows "scan_string (escape_byte c @ xs) =
           map_option (\<lambda>(b, rest). (escape_byte c @ b, rest)) (scan_string xs)"
proof -
  have "of_char c div 16 < (16::nat)" "of_char c mod 16 < (16::nat)"
    using assms(1) by simp_all
  then have "isHexDigit (hex ! (of_char c div 16))" "isHexDigit (hex ! (of_char c mod 16))"
    by (simp_all add: hex_nth_isHexDigit)
  then show ?thesis
    by (simp add: escape_byte_def Let_def isHexDigit_def option.map_comp comp_def split_def
          quote_iff [of c] backslash_iff [of c])
qed

lemma scan_string_escape:
  "scan_string (escape s @ CHR 0x22 # rest) = Some (escape s, rest)"
proof (induction s rule: escape.induct)
  case 1
  show ?case by simp
next
  case (2 c cs)
  show ?case
  proof (cases "(of_char c :: nat) < 0x80")
    case True
    show ?thesis
    proof (cases "htmlSafeSet (of_char c)")
      case True
      with \<open>of_char c < 0x80\<close> 2(1) show ?thesis
        by (simp add: htmlSafeSet_def quote_iff [of c] backslash_iff [of c])
    next
      case False
      with \<open>of_char c < 0x80\<close> 2(2) show ?thesis
        by (simp add: scan_string_escape_byte)
    qed
  next
    case False
    obtain r n where d: "DecodeRuneInString (c # cs) = (r, n)"
      by (cases "DecodeRuneInString (c # cs)")
    show ?thesis
    proof (cases "r = RuneError \<and> n = 1")
      case True
      with False d 2(3) [OF False d [symmetric] ] show ?thesis
        by (simp add: isHexDigit_def)
    next
      case nerr: False
      show ?thesis
      proof (cases "r = 0x2028 \<or> r = 0x2029")
        case True
        with False d nerr 2(4) [OF False d [symmetric] nerr True] show ?thesis
          by (auto simp: isHexDigit_def hex_def RuneError_def)
      next
        case f: False
        have hi: "\<forall>b \<in> set (c # take (n - 1) cs). 0x80 \<le> (of_char b :: nat)"
          using False DecodeRune_tail_bytes [OF d] by auto
        have esc: "escape (c # cs) = (c # take (n - 1) cs) @ escape (drop (n - 1) cs)"
          using False d nerr f by simp
        have "scan_string (escape (c # cs) @ CHR 0x22 # rest) =
              scan_string ((c # take (n - 1) cs) @ (escape (drop (n - 1) cs) @ CHR 0x22 # rest))"
          by (simp only: esc append_assoc)
        also have "\<dots> = map_option (\<lambda>(b, y). ((c # take (n - 1) cs) @ b, y))
                          (scan_string (escape (drop (n - 1) cs) @ CHR 0x22 # rest))"
          by (rule scan_string_high [OF hi])
        also have "\<dots> = Some (escape (c # cs), rest)"
          by (simp only: 2(5) [OF False d [symmetric] nerr f] esc option.map prod.case)
        finally show ?thesis .
      qed
    qed
  qed
qed

lemma digit_simps:
  "k < 10 \<Longrightarrow> (of_char (digit k) :: nat) = 0x30 + k"
proof -
  have "\<forall>k<10. (of_char (digit k) :: nat) = 0x30 + k"
    unfolding digit_def by (simp add: All_less_Suc numeral_eq_Suc)
  then show "k < 10 \<Longrightarrow> (of_char (digit k) :: nat) = 0x30 + k" by simp
qed

lemma isDigit_digit: "k < 10 \<Longrightarrow> isDigit (digit k)"
  by (simp add: isDigit_def digit_simps)

lemma digit_0: "digit 0 = CHR ''0''"
  by (simp add: digit_def)

lemma digit_eq_0: "k < 10 \<Longrightarrow> digit k = CHR ''0'' \<longleftrightarrow> k = 0"
  using digit_simps [of k] by (auto simp: char_eq_nat [of "digit k"] digit_0)

lemma length_fixed: "length (fixed w n) = w"
  by (induction w arbitrary: n) simp_all

lemma fixed_0: "fixed w 0 = replicate w (CHR ''0'')"
  by (induction w) (simp_all add: digit_0 replicate_append_same)

lemma pad_decimal:
  "n < 10 ^ Suc w \<Longrightarrow>
   replicate (Suc w - length (decimal n)) (CHR ''0'') @ decimal n = fixed (Suc w) n"
proof (induction w arbitrary: n)
  case 0
  then show ?case by (simp add: decimal.simps [of n])
next
  case (Suc w)
  show ?case
  proof (cases "n < 10")
    case True
    then show ?thesis
      by (simp add: decimal.simps [of n] fixed_0 replicate_append_same)
  next
    case False
    have "n div 10 < 10 ^ Suc w" using Suc.prems by (simp add: less_mult_imp_div_less)
    from Suc.IH [OF this] False show ?thesis
      by (simp add: decimal.simps [of n] Suc_diff_le)
  qed
qed

lemma appendInt_fixed:
  "n < 10 ^ Suc w \<Longrightarrow> appendInt (int n) (Suc w) = fixed (Suc w) n"
  using pad_decimal [of n w] by (simp add: appendInt_def Let_def)

lemma digits_value_snoc:
  "digits_value (xs @ [c]) = digits_value xs * 10 + (of_char c - 0x30)"
  by (simp add: digits_value_def)

lemma digits_value_fixed: "digits_value (fixed w n) = n mod 10 ^ w"
proof (induction w arbitrary: n)
  case 0
  show ?case by (simp add: digits_value_def)
next
  case (Suc w)
  have "n mod 10 ^ Suc w = (n div 10 mod 10 ^ w) * 10 + n mod 10"
    by (simp add: mod_mult2_eq)
  then show ?case
    by (simp add: digits_value_snoc Suc.IH digit_simps)
qed

lemma list_all_isDigit_fixed: "list_all isDigit (fixed w n)"
  by (induction w arbitrary: n) (simp_all add: isDigit_digit)

lemma trim_zeros_snoc:
  "trim_zeros (xs @ [c]) = (if c = CHR ''0'' then trim_zeros xs else xs @ [c])"
  by (simp add: trim_zeros_def)

lemma trim_zeros_Cons:
  "c \<noteq> CHR ''0'' \<Longrightarrow> trim_zeros (c # xs) = c # trim_zeros xs"
  by (induction xs rule: rev_induct) (simp_all add: trim_zeros_def)

lemma trim_fixed:
  "n < 10 ^ w \<Longrightarrow>
   digits_value (trim_zeros (fixed w n)) * 10 ^ (w - length (trim_zeros (fixed w n))) = n \<and>
   length (trim_zeros (fixed w n)) \<le> w \<and>
   list_all isDigit (trim_zeros (fixed w n)) \<and>
   (n \<noteq> 0 \<longrightarrow> trim_zeros (fixed w n) \<noteq> [])"
proof (induction w arbitrary: n)
  case 0
  then show ?case by (simp add: trim_zeros_def digits_value_def)
next
  case (Suc w)
  have d: "n div 10 < 10 ^ w" using Suc.prems by (simp add: less_mult_imp_div_less)
  show ?case
  proof (cases "n mod 10 = 0")
    case True
    then have n: "n = n div 10 * 10" by presburger
    from Suc.IH [OF d] True show ?thesis
      apply (simp add: trim_zeros_snoc digit_0 Suc_diff_le)
      using n by auto
  next
    case False
    then have "digit (n mod 10) \<noteq> CHR ''0''" by (simp add: digit_eq_0)
    then show ?thesis
      using Suc.prems False
      by (simp add: trim_zeros_snoc length_fixed digits_value_snoc digits_value_fixed
            list_all_isDigit_fixed isDigit_digit digit_simps)
  qed
qed

lemma appendInt_2: "n < 100 \<Longrightarrow> appendInt (int n) 2 = fixed 2 n"
proof -
  assume n: "n < 100"
  have e: "(2::nat) = Suc 1" by simp
  show ?thesis unfolding e by (rule appendInt_fixed) (use n in simp)
qed

lemma appendInt_4: "n < 10000 \<Longrightarrow> appendInt (int n) 4 = fixed 4 n"
proof -
  assume n: "n < 10000"
  have e: "(4::nat) = Suc 3" by simp
  show ?thesis unfolding e by (rule appendInt_fixed) (use n in simp)
qed

lemma appendInt_9: "n < 1000000000 \<Longrightarrow> appendInt (int n) 9 = fixed 9 n"
proof -
  assume n: "n < 1000000000"
  have e: "(9::nat) = Suc 8" by simp
  show ?thesis unfolding e by (rule appendInt_fixed) (use n in simp)
qed

lemma parseUint_fixed:
  "n < 10 ^ w \<Longrightarrow> lo \<le> n \<Longrightarrow> n \<le> hi \<Longrightarrow> parseUint (fixed w n) lo hi = Some n"
  by (simp add: parseUint_def list_all_isDigit_fixed digits_value_fixed)

lemma appendFormatRFC3339_fixed:
  assumes "wf_Time t" and "0 \<le> Year t" and "Year t < 10000"
  shows "appendFormatRFC3339 t nanos =
     fixed 4 (nat (Year t)) @ ''-'' @ fixed 2 (Month t) @ ''-'' @ fixed 2 (Day t) @ ''T''
       @ fixed 2 (Hour t) @ '':'' @ fixed 2 (Minute t) @ '':'' @ fixed 2 (Second t)
       @ (if nanos then appendNano (Nanosecond t) else []) @ appendZone (ZoneOffset t)"
proof -
  have d: "Day t \<le> 31" using assms(1) by (auto simp: wf_Time_def daysIn_def split: if_splits)
  have y: "appendInt (Year t) 4 = fixed 4 (nat (Year t))"
    using appendInt_4 [of "nat (Year t)"] assms(2,3) by simp
  show ?thesis
    using assms(1) d by (simp add: appendFormatRFC3339_def y appendInt_2 wf_Time_def)
qed

lemma appendNano_fixed:
  assumes "0 < n" and "n < 1000000000"
  shows "appendNano n = CHR ''.'' # trim_zeros (fixed 9 n)"
proof -
  have ne: "trim_zeros (fixed 9 n) \<noteq> []" and dg: "list_all isDigit (trim_zeros (fixed 9 n))"
    using trim_fixed [of n 9] assms by simp_all
  have "isDigit (last (trim_zeros (fixed 9 n)))"
    using ne dg last_in_set [OF ne] by (simp add: list_all_iff)
  then have "last (trim_zeros (fixed 9 n)) \<noteq> CHR ''.''"
    by (auto simp: isDigit_def)
  then show ?thesis
    using assms ne by (simp add: appendNano_def Let_def trim_zeros_Cons appendInt_9)
qed

lemma appendZone_fixed:
  assumes "off \<noteq> 0" and "off mod 60 = 0" and "nat \<bar>off\<bar> div 60 div 60 < 24"
  shows "appendZone off =
           (if off < 0 then CHR ''-'' else CHR ''+'')
             # fixed 2 (nat \<bar>off\<bar> div 60 div 60) @ '':'' @ fixed 2 (nat \<bar>off\<bar> div 60 mod 60)"
proof -
  have s: "off < 0 \<longleftrightarrow> off \<le> - 60" using assms(1,2) by presburger
  have m: "nat \<bar>off\<bar> div 60 mod 60 < 100"
    by (rule less_trans [of _ 60]) simp_all
  show ?thesis
    using assms(1,3) m by (simp add: appendZone_def Let_def appendInt_2 s)
qed

lemma rfc3339_slices:
  assumes "length Y = 4" "length Mo = 2" "length D = 2" "length H = 2" "length Mi = 2"
    "length S = 2"
  shows "parseRFC3339 (Y @ CHR ''-'' # Mo @ CHR ''-'' # D @ CHR ''T'' # H @ CHR '':'' # Mi
                         @ CHR '':'' # S @ R) =
     (case parseUint Y 0 9999 of None \<Rightarrow> None | Some year \<Rightarrow>
        (case parseUint Mo 1 12 of None \<Rightarrow> None | Some month \<Rightarrow>
        (case parseUint D 1 (daysIn month (int year)) of None \<Rightarrow> None | Some day \<Rightarrow>
        (case parseUint H 0 23 of None \<Rightarrow> None | Some hour \<Rightarrow>
        (case parseUint Mi 0 59 of None \<Rightarrow> None | Some minute \<Rightarrow>
        (case parseUint S 0 59 of None \<Rightarrow> None | Some sec \<Rightarrow>
             (case parse_fraction R of (nsec, z) \<Rightarrow>
                (case parse_zone z of
                   None \<Rightarrow> None
                 | Some zoneOffset \<Rightarrow>
                     Some \<lparr>Year = int year, Month = month, Day = day, Hour = hour,
                           Minute = minute, Second = sec, Nanosecond = nsec,
                           ZoneOffset = zoneOffset, Monotonic = None\<rparr>))))))))"
proof -
  let ?s = "Y @ CHR ''-'' # Mo @ CHR ''-'' # D @ CHR ''T'' # H @ CHR '':'' # Mi
              @ CHR '':'' # S @ R"
  have sl: "take 4 ?s = Y" "take 2 (drop 5 ?s) = Mo" "take 2 (drop 8 ?s) = D"
    "take 2 (drop 11 ?s) = H" "take 2 (drop 14 ?s) = Mi" "take 2 (drop 17 ?s) = S"
    "drop 19 ?s = R"
    using assms by simp_all
  have nt: "?s ! 4 = CHR ''-''" "?s ! 7 = CHR ''-''" "?s ! 10 = CHR ''T''"
    "?s ! 13 = CHR '':''" "?s ! 16 = CHR '':''"
    using assms by (simp_all add: nth_append)
  have len: "\<not> length ?s < 19" using assms by simp
  show ?thesis
    unfolding parseRFC3339_def sl nt using len by (simp cong: option.case_cong)
qed

lemma appendZone_head:
  "appendZone off \<noteq> [] \<and> \<not> isDigit (hd (appendZone off)) \<and> hd (appendZone off) \<noteq> CHR ''.''"
  by (simp add: appendZone_def Let_def isDigit_def)

lemma parse_zone_appendZone:
  assumes "off mod 60 = 0" and "nat \<bar>off\<bar> div 60 div 60 < 24"
  shows "parse_zone (appendZone off) = Some off"
proof (cases "off = 0")
  case True
  then show ?thesis by (simp add: appendZone_def parse_zone_def)
next
  case False
  let ?z = "nat \<bar>off\<bar> div 60"
  have m: "?z mod 60 < 60" by simp
  have "(60::int) dvd off" using assms(1) by (simp only: dvd_eq_mod_eq_0)
  then have "(60::int) dvd \<bar>off\<bar>" by (simp only: dvd_abs_iff)
  then have "int 60 dvd int (nat \<bar>off\<bar>)" by simp
  then have "60 dvd nat \<bar>off\<bar>" by (simp only: of_nat_dvd_iff)
  then have "?z * 60 = nat \<bar>off\<bar>" by simp
  then have v: "int ((?z div 60 * 60 + ?z mod 60) * 60) = \<bar>off\<bar>"
    by (simp only: div_mult_mod_eq)
  show ?thesis
    using False assms(2) m v
    by (auto simp: appendZone_fixed [OF False assms] parse_zone_def length_fixed nth_append
        parseUint_fixed)
qed

lemma takeWhile_digits_then:
  assumes "list_all isDigit ds" and "z \<noteq> []" and "\<not> isDigit (hd z)"
  shows "takeWhile isDigit (ds @ z) = ds"
proof -
  have "takeWhile isDigit z = []" using assms(2,3) by (cases z) simp_all
  then show ?thesis using assms(1) by (simp add: takeWhile_append2 list_all_iff)
qed

lemma parse_fraction_appendNano:
  assumes "n < 1000000000" and "z \<noteq> []" and "\<not> isDigit (hd z)" and "hd z \<noteq> CHR ''.''"
  shows "parse_fraction (appendNano n @ z) = (n, z)"
proof (cases "n = 0")
  case True
  then show ?thesis
    using assms(2,4) by (cases z) (simp_all add: appendNano_def parse_fraction_def)
next
  case False
  let ?ds = "trim_zeros (fixed 9 n)"
  have ne: "?ds \<noteq> []" and dg: "list_all isDigit ?ds" and le: "length ?ds \<le> 9"
    and v: "digits_value ?ds * 10 ^ (9 - length ?ds) = n"
    using trim_fixed [of n 9] assms(1) False by simp_all
  have tw: "takeWhile isDigit (?ds @ z) = ?ds"
    by (rule takeWhile_digits_then [OF dg assms(2,3)])
  have h: "isDigit ((?ds @ z) ! 0)"
    using ne dg by (cases ?ds) simp_all
  have l2: "2 \<le> length (CHR ''.'' # ?ds @ z)"
    using ne by (cases ?ds) simp_all
  have "appendNano n = CHR ''.'' # ?ds"
    using appendNano_fixed [of n] False assms(1) by simp
  then show ?thesis
    using h l2 tw le v
    by (simp add: parse_fraction_def parseNanoseconds_def Let_def min_def)
qed

lemma parseRFC3339_appendFormatRFC3339:
  assumes "wf_Time t" and "0 \<le> Year t" and "Year t < 10000"
    and "ZoneOffset t mod 60 = 0" and "nat \<bar>ZoneOffset t\<bar> div 60 div 60 < 24"
  shows "parseRFC3339 (appendFormatRFC3339 t True) = Some (t\<lparr>Monotonic := None\<rparr>)"
proof -
  have f: "parse_fraction (appendNano (Nanosecond t) @ appendZone (ZoneOffset t)) =
             (Nanosecond t, appendZone (ZoneOffset t))"
    using assms(1) appendZone_head [of "ZoneOffset t"]
    by (intro parse_fraction_appendNano) (simp_all add: wf_Time_def)
  have z: "parse_zone (appendZone (ZoneOffset t)) = Some (ZoneOffset t)"
    by (rule parse_zone_appendZone [OF assms(4,5)])
  have y: "parseUint (fixed 4 (nat (Year t))) 0 9999 = Some (nat (Year t))"
    using assms(2,3) by (intro parseUint_fixed) simp_all
  have u: "parseUint (fixed 2 (Month t)) 1 12 = Some (Month t)"
    "parseUint (fixed 2 (Day t)) 1 (daysIn (Month t) (Year t)) = Some (Day t)"
    "parseUint (fixed 2 (Hour t)) 0 23 = Some (Hour t)"
    "parseUint (fixed 2 (Minute t)) 0 59 = Some (Minute t)"
    "parseUint (fixed 2 (Second t)) 0 59 = Some (Second t)"
    using assms(1)
    by (auto intro!: parseUint_fixed simp: wf_Time_def daysIn_def split: if_splits)
  show ?thesis
    using assms(2) y u f z
    by (simp add: appendFormatRFC3339_fixed [OF assms(1,2,3)] rfc3339_slices length_fixed)
qed

lemma time_char_plain:
  "time_char c \<Longrightarrow> c \<noteq> CHR 0x22 \<and> c \<noteq> CHR 0x5C \<and> 0x20 \<le> (of_char c :: nat)"
  by (auto simp: time_char_def)

lemma time_char_digit: "time_char (digit (n mod 10))"
proof -
  have "list_all time_char ''0123456789''" by (simp add: time_char_def)
  moreover have "n mod 10 < length ''0123456789''" by simp
  ultimately show ?thesis
    unfolding digit_def list_all_length by blast
qed

lemma time_char_decimal: "b \<in> set (decimal n) \<Longrightarrow> time_char b"
proof (induction n arbitrary: b rule: decimal.induct)
  case (1 n)
  show ?case
  proof (cases "n < 10")
    case True
    then have "n mod 10 = n" by simp
    with 1(2) True time_char_digit [of n] show ?thesis
      by (simp add: decimal.simps [of n])
  next
    case False
    with 1 time_char_digit [of n] show ?thesis
      by (auto simp: decimal.simps [of n])
  qed
qed

lemma time_char_appendInt: "b \<in> set (appendInt x w) \<Longrightarrow> time_char b"
  by (auto simp: appendInt_def Let_def time_char_decimal split: if_splits)
     (simp_all add: time_char_def)

lemma set_trim_zeros: "set (trim_zeros xs) \<subseteq> set xs"
  unfolding trim_zeros_def using set_dropWhileD by fastforce

lemma set_appendNano:
  "set (appendNano n) \<subseteq> set (trim_zeros (CHR ''.'' # appendInt (int n) 9))"
proof (cases "n = 0")
  case True
  then show ?thesis by (simp add: appendNano_def)
next
  case False
  let ?b = "trim_zeros (CHR ''.'' # appendInt (int n) 9)"
  have "appendNano n = ?b \<or> appendNano n = butlast ?b"
    using False by (simp add: appendNano_def Let_def)
  then show ?thesis
    using in_set_butlastD [of _ ?b] by auto
qed

lemma time_char_appendNano: "b \<in> set (appendNano n) \<Longrightarrow> time_char b"
proof -
  assume "b \<in> set (appendNano n)"
  then have "b \<in> set (trim_zeros (CHR ''.'' # appendInt (int n) 9))"
    using set_appendNano by blast
  then have "b \<in> set (CHR ''.'' # appendInt (int n) 9)"
    using set_trim_zeros by blast
  then have "b = CHR ''.'' \<or> b \<in> set (appendInt (int n) 9)" by simp
  then show ?thesis
  proof
    assume "b = CHR ''.''"
    then show ?thesis by (simp add: time_char_def)
  next
    assume "b \<in> set (appendInt (int n) 9)"
    then show ?thesis by (rule time_char_appendInt)
  qed
qed

lemma time_char_appendZone: "b \<in> set (appendZone off) \<Longrightarrow> time_char b"
  by (auto simp: appendZone_def Let_def dest: time_char_appendInt split: if_splits)
     (simp_all add: time_char_def)

lemma time_char_format: "b \<in> set (appendFormatRFC3339 t nanos) \<Longrightarrow> time_char b"
  by (auto simp: appendFormatRFC3339_def
      dest: time_char_appendInt time_char_appendNano time_char_appendZone split: if_splits)
     (simp_all add: time_char_def)

lemma scan_string_time:
  "scan_string (appendFormatRFC3339 t nanos @ CHR 0x22 # rest) =
     Some (appendFormatRFC3339 t nanos, rest)"
proof -
  have "\<forall>b \<in> set (appendFormatRFC3339 t nanos).
          b \<noteq> CHR 0x22 \<and> b \<noteq> CHR 0x5C \<and> 0x20 \<le> (of_char b :: nat)"
    using time_char_format time_char_plain by blast
  from scan_string_plain [OF this] show ?thesis by simp
qed

lemma Indent_loop_string:
  "scan_string xs = Some (body, rest) \<Longrightarrow>
   Indent_loop p i InString opened started needIndent depth xs =
     body @ CHR 0x22 # Indent_loop p i Outside opened started needIndent depth rest"
proof (induction xs arbitrary: body rule: scan_string.induct)
  case 1
  then show ?case by simp
next
  case (2 c cs)
  show ?case
  proof (cases "c = CHR 0x22")
    case True
    with 2(4) show ?thesis by simp
  next
    case nq: False
    show ?thesis
    proof (cases "c = CHR 0x5C")
      case True
      from 2(4) nq True obtain e r where cs: "cs = e # r"
        by (cases cs) simp_all
      show ?thesis
      proof (cases "e \<in> set ''bfnrt/'' \<or> e = CHR 0x5C \<or> e = CHR 0x22")
        case e: True
        from 2(4) nq True cs e obtain b where
          b: "scan_string r = Some (b, rest)" "body = c # e # b"
          by auto
        from 2(1) [OF nq True cs e b(1)] nq True cs b(2) show ?thesis by simp
      next
        case ne: False
        from 2(4) nq True cs ne have u: "e = CHR ''u'' \<and> 4 \<le> length r \<and> list_all isHexDigit (take 4 r)"
          by (auto split: if_splits)
        from 2(4) nq True cs ne u obtain b where
          b: "scan_string (drop 4 r) = Some (b, rest)" "body = c # e # take 4 r @ b"
          by auto
        have h: "\<forall>x \<in> set (take 4 r). x \<noteq> CHR 0x5C \<and> x \<noteq> CHR 0x22"
          using u by (auto simp: list_all_iff isHexDigit_def)
        have pass: "\<And>ys zs. \<forall>x \<in> set ys. x \<noteq> CHR 0x5C \<and> x \<noteq> CHR 0x22 \<Longrightarrow>
            Indent_loop p i InString opened started needIndent depth (ys @ zs) =
            ys @ Indent_loop p i InString opened started needIndent depth zs"
          subgoal for ys zs by (induction ys) simp_all
          done
        have "Indent_loop p i InString opened started needIndent depth (take 4 r @ drop 4 r) =
              take 4 r @ Indent_loop p i InString opened started needIndent depth (drop 4 r)"
          by (rule pass [OF h])
        with 2(2) [OF nq True cs ne _ b(1)] u nq True cs b(2) show ?thesis by simp
      qed
    next
      case nb: False
      from 2(4) nq nb obtain b where
        b: "\<not> (of_char c :: nat) < 0x20" "scan_string cs = Some (b, rest)" "body = c # b"
        by (auto split: if_splits)
      from 2(3) [OF nq nb b(1) b(2)] nq nb b(3) show ?thesis by simp
    qed
  qed
qed

section \<open>Properties of \<^verbatim>\<open>profiles use\<close>\<close>

lemma profileUseCommand_calls:
  "\<exists>more. calls (snd (profileUseCommand env (name # rest) w)) =
     calls w @ CallLoadProfile name # more"
  by (simp add: profileUseCommand_def record_call_def Let_def
           split: option.split sum.split)

text \<open>
  Claim C3. The command \<^verbatim>\<open>use\<close> calls \<^verbatim>\<open>LoadProfile(name)\<close> before anything that touches
  the configuration: \<^verbatim>\<open>LoadProfile\<close> is the first call it makes. When \<^verbatim>\<open>LoadProfile\<close> fails
  with \<open>e\<close>, the command returns the error built from \<open>e\<close>, it makes no further call (so
  neither \<^verbatim>\<open>SetCurrentProfile\<close> nor \<^verbatim>\<open>WriteConfigFile\<close>), and the stored configuration,
  with its current profile, is what it was.
\<close>

theorem use_validates_before_config:
  "(\<exists>more. calls (snd (profileUseCommand env (name # rest) w)) =
      calls w @ CallLoadProfile name # more) \<and>
   (LoadProfile env name = Some e \<longrightarrow>
      fst (profileUseCommand env (name # rest) w) =
        Some (FmtErrorf ''cannot use profile %q: %v'' [ArgString name, ArgError e]) \<and>
      calls (snd (profileUseCommand env (name # rest) w)) = calls w @ [CallLoadProfile name] \<and>
      \<not> list_ex touches_config (drop (length (calls w))
             (calls (snd (profileUseCommand env (name # rest) w)))) \<and>
      config_file (snd (profileUseCommand env (name # rest) w)) = config_file w)"
proof (intro conjI impI)
  show "\<exists>more. calls (snd (profileUseCommand env (name # rest) w)) =
      calls w @ CallLoadProfile name # more"
    by (rule profileUseCommand_calls)
next
  assume fails: "LoadProfile env name = Some e"
  then have run: "profileUseCommand env (name # rest) w =
      (Some (FmtErrorf ''cannot use profile %q: %v'' [ArgString name, ArgError e]),
       record_call (CallLoadProfile name) w)"
    by (simp add: profileUseCommand_def Let_def)
  show "fst (profileUseCommand env (name # rest) w) =
        Some (FmtErrorf ''cannot use profile %q: %v'' [ArgString name, ArgError e])"
    by (simp add: run)
  show "calls (snd (profileUseCommand env (name # rest) w)) = calls w @ [CallLoadProfile name]"
    by (simp add: run record_call_def)
  show "\<not> list_ex touches_config (drop (length (calls w))
             (calls (snd (profileUseCommand env (name # rest) w))))"
    by (simp add: run record_call_def)
  show "config_file (snd (profileUseCommand env (name # rest) w)) = config_file w"
    by (simp add: run record_call_def)
qed

theorem use_validates_before_config_witness:
  "LoadProfile missing_env ''missing'' = Some (ErrorsNew ''profile not found'') \<and>
   profileUseCommand missing_env [''missing''] default_world =
     (Some (FmtErrorf ''cannot use profile %q: %v''
        [ArgString ''missing'', ArgError (ErrorsNew ''profile not found'')]),
      \<lparr>config_file = \<lparr>current_profile = ''default'', other_settings = []\<rparr>,
       calls = [CallLoadProfile ''missing'']\<rparr>)"
proof -
  have f: "LoadProfile missing_env ''missing'' = Some (ErrorsNew ''profile not found'')"
    by (simp add: missing_env_def)
  from use_validates_before_config [of missing_env "''missing''" "[]" default_world
      "ErrorsNew ''profile not found''"] f
  have "fst (profileUseCommand missing_env [''missing''] default_world) =
        Some (FmtErrorf ''cannot use profile %q: %v''
          [ArgString ''missing'', ArgError (ErrorsNew ''profile not found'')])"
    and "calls (snd (profileUseCommand missing_env [''missing''] default_world)) =
          calls default_world @ [CallLoadProfile ''missing'']"
    and "config_file (snd (profileUseCommand missing_env [''missing''] default_world)) =
          config_file default_world"
    by simp_all
  then show ?thesis
    using f by (cases "profileUseCommand missing_env [''missing''] default_world")
      (simp add: default_world_def)
qed

section \<open>Properties of the metadata write\<close>

lemma Encode_cases:
  "Encode v w =
     (case marshal_Metadata v of
        Inl err \<Rightarrow> (Some err, w)
      | Inr b \<Rightarrow>
          (case write_error w of
             Some err \<Rightarrow> (Some err, w)
           | None \<Rightarrow> (None, w\<lparr>written := written w @ Indent (b @ [CHR 0x0A]) [] ''  ''\<rparr>)))"
  by (simp add: Encode_def Write_def split: sum.split)

lemma Time_MarshalJSON_Inr:
  "0 \<le> Year t \<Longrightarrow> Year t < 10000 \<Longrightarrow> nat \<bar>ZoneOffset t\<bar> div 60 div 60 < 24 \<Longrightarrow>
   Time_MarshalJSON t = Inr ([CHR 0x22] @ appendFormatRFC3339 t True @ [CHR 0x22])"
  by (simp add: Time_MarshalJSON_def)

lemma marshal_Metadata_Inr:
  "Time_MarshalJSON (DateCreated v) = Inr date \<Longrightarrow> \<exists>b. marshal_Metadata v = Inr b"
  by (simp add: marshal_Metadata_def)

lemma profileMetadataContent_succeeds:
  assumes "user_Current env = Inr u"
    and "Fact ''profile_name'' = Some n"
    and "Fact ''profile_path'' = Some p"
    and "Time_MarshalJSON (time_Now env) = Inr date"
    and "write_error w = None"
  shows "fst (profileMetadataContent env Fact w) = None"
proof -
  obtain b where "marshal_Metadata (profileData env u n p) = Inr b"
    using marshal_Metadata_Inr [of "profileData env u n p" date] assms(4)
    by (auto simp: profileData_def)
  then show ?thesis
    using assms by (simp add: profileMetadataContent_def Encode_cases)
qed

lemma example_time_marshals:
  "Time_MarshalJSON example_time =
     Inr ([CHR 0x22] @ appendFormatRFC3339 example_time True @ [CHR 0x22])"
  by (rule Time_MarshalJSON_Inr) (simp_all add: example_time_def)

lemma example_write_succeeds:
  "fst (profileMetadataContent example_env example_facts empty_writer) = None"
  by (rule profileMetadataContent_succeeds [where u = "''alice''" and n = "''default''"
        and p = "''/home/alice/.elastic-package/profiles/default''"])
     (simp_all add: example_env_def example_facts_def empty_writer_def example_time_marshals)

text \<open>
  Claim C4, as amended. When the current user can be resolved and the fact
  \<^verbatim>\<open>profile_name\<close> or the fact \<^verbatim>\<open>profile_path\<close> is absent, the write fails with the error
  that names the missing fact (the name when both are absent), and the writer has taken
  nothing.
\<close>

theorem missing_fact_fails:
  assumes "user_Current env = Inr u"
    and "Fact ''profile_name'' = None \<or> Fact ''profile_path'' = None"
  shows "profileMetadataContent env Fact w =
           (Some (ErrorsNew (if Fact ''profile_name'' = None then ''unknown profile name''
                             else ''unknown profile path'')), w)"
  using assms by (auto simp: profileMetadataContent_def split: option.splits)

theorem missing_fact_fails_witness:
  "profileMetadataContent example_env name_only_facts empty_writer =
     (Some (ErrorsNew ''unknown profile path''), empty_writer)"
  using missing_fact_fails [of example_env "''alice''" name_only_facts empty_writer]
  by (simp add: example_env_def name_only_facts_def)

text \<open>
  Claim C4 as stated does not hold: with no facts at all and a user that cannot be
  resolved, the error returned is the one of the user lookup, not a missing-fact error.
\<close>

theorem missing_fact_counterexample:
  "no_facts ''profile_name'' = None \<and>
   fst (profileMetadataContent no_user_env no_facts empty_writer) =
     Some (ErrorsWrap (OsError ''user: unknown userid 1000'') ''error fetching current user'') \<and>
   fst (profileMetadataContent no_user_env no_facts empty_writer) \<noteq>
     Some (ErrorsNew ''unknown profile name'') \<and>
   fst (profileMetadataContent no_user_env no_facts empty_writer) \<noteq>
     Some (ErrorsNew ''unknown profile path'')"
  by (simp add: profileMetadataContent_def no_user_env_def no_facts_def)

text \<open>
  Claim C6. After a successful write the current user was resolved, both facts were
  present, and the bytes taken by the writer are the indented JSON document of the record
  whose name is the fact \<^verbatim>\<open>profile_name\<close>, whose path is the fact \<^verbatim>\<open>profile_path\<close>, whose
  user is the current user, whose version is the commit hash of the build, and whose
  creation date is the time read at the write.
\<close>

theorem written_record_fields:
  assumes "fst (profileMetadataContent env Fact w) = None"
  shows "\<exists>u n p b.
     user_Current env = Inr u \<and> Fact ''profile_name'' = Some n \<and>
     Fact ''profile_path'' = Some p \<and>
     profileData env u n p =
       \<lparr>Name = n, DateCreated = time_Now env, User = u,
        Version = version_CommitHash env, Path = p\<rparr> \<and>
     marshal_Metadata (profileData env u n p) = Inr b \<and>
     snd (profileMetadataContent env Fact w) =
       w\<lparr>written := written w @ Indent (b @ [CHR 0x0A]) [] ''  ''\<rparr>"
  using assms
  by (auto simp: profileMetadataContent_def Encode_cases profileData_def
      split: sum.splits option.splits prod.splits)

theorem written_record_fields_witness:
  "fst (profileMetadataContent example_env example_facts empty_writer) = None \<and>
   (\<exists>b. marshal_Metadata
           \<lparr>Name = ''default'', DateCreated = example_time, User = ''alice'',
            Version = ''3f2a1bc'',
            Path = ''/home/alice/.elastic-package/profiles/default''\<rparr> = Inr b \<and>
        snd (profileMetadataContent example_env example_facts empty_writer) =
          empty_writer\<lparr>written := Indent (b @ [CHR 0x0A]) [] ''  ''\<rparr>)"
proof -
  from written_record_fields [OF example_write_succeeds]
  obtain u n p b where
    "user_Current example_env = Inr u" "example_facts ''profile_name'' = Some n"
    "example_facts ''profile_path'' = Some p"
    "marshal_Metadata (profileData example_env u n p) = Inr b"
    "snd (profileMetadataContent example_env example_facts empty_writer) =
       empty_writer\<lparr>written := written empty_writer @ Indent (b @ [CHR 0x0A]) [] ''  ''\<rparr>"
    by blast
  then show ?thesis
    using example_write_succeeds
    by (auto simp: example_env_def example_facts_def profileData_def empty_writer_def)
qed

text \<open>
  Claim C8. When the current user cannot be resolved, the write fails with the error of
  the lookup, wrapped as \<^verbatim>\<open>error fetching current user\<close>, and the writer has taken nothing.
\<close>

theorem unresolved_user_fails:
  assumes "user_Current env = Inl err"
  shows "profileMetadataContent env Fact w =
           (Some (ErrorsWrap err ''error fetching current user''), w)"
  using assms by (simp add: profileMetadataContent_def)

theorem unresolved_user_fails_witness:
  "profileMetadataContent no_user_env example_facts empty_writer =
     (Some (ErrorsWrap (OsError ''user: unknown userid 1000'') ''error fetching current user''),
      empty_writer)"
  using unresolved_user_fails [of no_user_env "OsError ''user: unknown userid 1000''"
      example_facts empty_writer]
  by (simp add: no_user_env_def)

text \<open>
  Claim C10. The user is resolved before the facts are consulted: when the user cannot be
  resolved and a required fact is missing as well, the error returned is the one of the
  user lookup and neither of the two missing-fact errors.
\<close>

theorem user_error_before_fact_error:
  assumes "user_Current env = Inl err"
    and "Fact ''profile_name'' = None \<or> Fact ''profile_path'' = None"
  shows "fst (profileMetadataContent env Fact w) =
           Some (ErrorsWrap err ''error fetching current user'') \<and>
         fst (profileMetadataContent env Fact w) \<noteq> Some (ErrorsNew ''unknown profile name'') \<and>
         fst (profileMetadataContent env Fact w) \<noteq> Some (ErrorsNew ''unknown profile path'')"
  using assms(1) by (simp add: profileMetadataContent_def)

theorem user_error_before_fact_error_witness:
  "name_only_facts ''profile_path'' = None \<and>
   fst (profileMetadataContent no_user_env name_only_facts empty_writer) =
     Some (ErrorsWrap (OsError ''user: unknown userid 1000'') ''error fetching current user'')"
proof -
  have u: "user_Current no_user_env = Inl (OsError ''user: unknown userid 1000'')"
    by (simp add: no_user_env_def)
  have f: "name_only_facts ''profile_path'' = None"
    by (simp add: name_only_facts_def)
  have "name_only_facts ''profile_name'' = None \<or> name_only_facts ''profile_path'' = None"
    using f by simp
  from user_error_before_fact_error [of no_user_env _ name_only_facts empty_writer, OF u this] f
  show ?thesis by simp
qed

section \<open>Properties of the JSON document\<close>

lemma Indent_loop_escape:
  "Indent_loop p i InString opened started needIndent depth (escape x @ CHR 0x22 # rest) =
     escape x @ CHR 0x22 # Indent_loop p i Outside opened started needIndent depth rest"
  by (rule Indent_loop_string [OF scan_string_escape])

lemma Indent_loop_time:
  "Indent_loop p i InString opened started needIndent depth
     (appendFormatRFC3339 t nanos @ CHR 0x22 # rest) =
   appendFormatRFC3339 t nanos @ CHR 0x22
     # Indent_loop p i Outside opened started needIndent depth rest"
  by (rule Indent_loop_string [OF scan_string_time])

lemma Time_MarshalJSON_InrD:
  "Time_MarshalJSON t = Inr date \<Longrightarrow>
   date = [CHR 0x22] @ appendFormatRFC3339 t True @ [CHR 0x22] \<and>
   0 \<le> Year t \<and> Year t < 10000 \<and> nat \<bar>ZoneOffset t\<bar> div 60 div 60 < 24"
  by (auto simp: Time_MarshalJSON_def split: if_splits)

lemma marshal_Metadata_InrD:
  assumes "marshal_Metadata v = Inr b"
  shows "b = ''{'' @ json_key ''name'' @ encode_string (Name v)
              @ '','' @ json_key ''date_created''
              @ [CHR 0x22] @ appendFormatRFC3339 (DateCreated v) True @ [CHR 0x22]
              @ '','' @ json_key ''user'' @ encode_string (User v)
              @ '','' @ json_key ''version'' @ encode_string (Version v)
              @ '','' @ json_key ''path'' @ encode_string (Path v) @ ''}''"
    and "0 \<le> Year (DateCreated v)" and "Year (DateCreated v) < 10000"
    and "nat \<bar>ZoneOffset (DateCreated v)\<bar> div 60 div 60 < 24"
  using assms Time_MarshalJSON_InrD [of "DateCreated v"]
  by (auto simp: marshal_Metadata_def split: sum.splits)

lemma Indent_marshal_Metadata:
  assumes "marshal_Metadata v = Inr b"
  shows "Indent (b @ [CHR 0x0A]) [] ''  '' =
     ''{'' @ [CHR 0x0A]
       @ member_line ''name'' (encode_string (Name v)) @ '','' @ [CHR 0x0A]
       @ member_line ''date_created''
           ([CHR 0x22] @ appendFormatRFC3339 (DateCreated v) True @ [CHR 0x22])
       @ '','' @ [CHR 0x0A]
       @ member_line ''user'' (encode_string (User v)) @ '','' @ [CHR 0x0A]
       @ member_line ''version'' (encode_string (Version v)) @ '','' @ [CHR 0x0A]
       @ member_line ''path'' (encode_string (Path v)) @ [CHR 0x0A]
       @ ''}'' @ [CHR 0x0A]"
  unfolding marshal_Metadata_InrD(1) [OF assms]
  by (simp add: Indent_def json_key_def encode_string_def member_line_def isSpace_def
        newline_def Indent_loop_escape Indent_loop_time)

lemma two_digits_fixed: "n < 100 \<Longrightarrow> lo \<le> n \<Longrightarrow> n \<le> hi \<Longrightarrow> two_digits (fixed 2 n) lo hi"
  by (simp add: two_digits_def length_fixed list_all_isDigit_fixed digits_value_fixed)

lemma appendZone_shape:
  assumes "off \<noteq> 0" and "nat \<bar>off\<bar> div 60 div 60 < 24"
  shows "appendZone off =
           (if off \<le> - 60 then CHR ''-'' else CHR ''+'')
             # fixed 2 (nat \<bar>off\<bar> div 60 div 60) @ CHR '':'' # fixed 2 (nat \<bar>off\<bar> div 60 mod 60)"
proof -
  have m: "nat \<bar>off\<bar> div 60 mod 60 < 100"
    by (rule less_trans [of _ 60]) simp_all
  show ?thesis
    using assms m by (simp add: appendZone_def Let_def appendInt_2)
qed

lemma is_time_offset_appendZone:
  assumes "nat \<bar>off\<bar> div 60 div 60 < 24"
  shows "is_time_offset (appendZone off)"
proof (cases "off = 0")
  case True
  then show ?thesis by (simp add: appendZone_def is_time_offset_def)
next
  case False
  have m: "nat \<bar>off\<bar> div 60 mod 60 < 60" by simp
  show ?thesis
    unfolding appendZone_shape [OF False assms] is_time_offset_def
    using assms m
    by (auto simp: length_fixed nth_append intro!: two_digits_fixed)
qed

lemma is_RFC3339_format:
  assumes "wf_Time t" and "0 \<le> Year t" and "Year t < 10000"
    and "nat \<bar>ZoneOffset t\<bar> div 60 div 60 < 24"
  shows "is_RFC3339 (appendFormatRFC3339 t True)"
proof -
  let ?Y = "fixed 4 (nat (Year t))" and ?Mo = "fixed 2 (Month t)" and ?D = "fixed 2 (Day t)"
  let ?H = "fixed 2 (Hour t)" and ?Mi = "fixed 2 (Minute t)" and ?S = "fixed 2 (Second t)"
  let ?R = "appendNano (Nanosecond t) @ appendZone (ZoneOffset t)"
  let ?s = "?Y @ CHR ''-'' # ?Mo @ CHR ''-'' # ?D @ CHR ''T'' # ?H @ CHR '':'' # ?Mi
              @ CHR '':'' # ?S @ ?R"
  have s: "appendFormatRFC3339 t True = ?s"
    by (simp add: appendFormatRFC3339_fixed [OF assms(1,2,3)])
  have sl: "take 4 ?s = ?Y" "take 2 (drop 5 ?s) = ?Mo" "take 2 (drop 8 ?s) = ?D"
    "take 2 (drop 11 ?s) = ?H" "take 2 (drop 14 ?s) = ?Mi" "take 2 (drop 17 ?s) = ?S"
    "drop 19 ?s = ?R"
    by (simp_all add: length_fixed)
  have nt: "?s ! 4 = CHR ''-''" "?s ! 7 = CHR ''-''" "?s ! 10 = CHR ''T''"
    "?s ! 13 = CHR '':''" "?s ! 16 = CHR '':''"
    by (simp_all add: nth_append length_fixed)
  have z: "is_time_offset (appendZone (ZoneOffset t))"
    by (rule is_time_offset_appendZone [OF assms(4)])
  have zh: "appendZone (ZoneOffset t) \<noteq> []" "\<not> isDigit (hd (appendZone (ZoneOffset t)))"
    "hd (appendZone (ZoneOffset t)) \<noteq> CHR ''.''"
    using appendZone_head [of "ZoneOffset t"] by simp_all
  have len: "20 \<le> length ?s" using zh(1) by (simp add: length_fixed Suc_le_eq)
  have d31: "Day t \<le> 31" using assms(1) by (auto simp: wf_Time_def daysIn_def split: if_splits)
  have td: "two_digits ?Mo 1 12" "two_digits ?D 1 31" "two_digits ?H 0 23"
    "two_digits ?Mi 0 59" "two_digits ?S 0 60"
    using assms(1) d31 by (auto simp: wf_Time_def intro!: two_digits_fixed)
  have r: "case ?R of [] \<Rightarrow> False
      | c # r \<Rightarrow> if c = CHR ''.''
          then takeWhile isDigit r \<noteq> [] \<and> is_time_offset (dropWhile isDigit r)
          else is_time_offset (c # r)"
  proof (cases "Nanosecond t = 0")
    case True
    then have "?R = appendZone (ZoneOffset t)" by (simp add: appendNano_def)
    with z zh show ?thesis by (cases "appendZone (ZoneOffset t)") simp_all
  next
    case False
    let ?ds = "trim_zeros (fixed 9 (Nanosecond t))"
    have n: "Nanosecond t < 1000000000" using assms(1) by (simp add: wf_Time_def)
    have R: "?R = CHR ''.'' # ?ds @ appendZone (ZoneOffset t)"
      using appendNano_fixed [of "Nanosecond t"] False n by simp
    have ne: "?ds \<noteq> []" and dg: "list_all isDigit ?ds"
      using trim_fixed [of "Nanosecond t" 9] n False by simp_all
    have tw: "takeWhile isDigit (?ds @ appendZone (ZoneOffset t)) = ?ds"
      by (rule takeWhile_digits_then [OF dg zh(1,2)])
    have "dropWhile isDigit (?ds @ appendZone (ZoneOffset t)) = appendZone (ZoneOffset t)"
      using takeWhile_dropWhile_id [of isDigit "?ds @ appendZone (ZoneOffset t)"] tw
      by (metis append_same_eq append_eq_append_conv same_append_eq)
    then show ?thesis using R tw ne z by simp
  qed
  show ?thesis
    unfolding s is_RFC3339_def sl nt
    using len td r by (simp add: list_all_isDigit_fixed)
qed

text \<open>
  Claim C7. The document that a successful \<^verbatim>\<open>Encode\<close> hands to the writer is an opening
  brace, then the five members \<^verbatim>\<open>name\<close>, \<^verbatim>\<open>date_created\<close>, \<^verbatim>\<open>user\<close>, \<^verbatim>\<open>version\<close> and \<^verbatim>\<open>path\<close>
  in this order, each on a line of its own, indented by two spaces, with a colon and a
  space between key and value and a comma after all but the last, then a closing brace and
  a line feed. The strings are JSON string literals, and the creation date is a string
  literal whose content has the form of RFC 3339.
\<close>

theorem serialized_document:
  assumes "Encode v w = (None, w')" and "wf_Time (DateCreated v)"
  shows "written w' =
     written w @ ''{'' @ [CHR 0x0A]
       @ member_line ''name'' (encode_string (Name v)) @ '','' @ [CHR 0x0A]
       @ member_line ''date_created''
           ([CHR 0x22] @ appendFormatRFC3339 (DateCreated v) True @ [CHR 0x22])
       @ '','' @ [CHR 0x0A]
       @ member_line ''user'' (encode_string (User v)) @ '','' @ [CHR 0x0A]
       @ member_line ''version'' (encode_string (Version v)) @ '','' @ [CHR 0x0A]
       @ member_line ''path'' (encode_string (Path v)) @ [CHR 0x0A]
       @ ''}'' @ [CHR 0x0A] \<and>
     is_RFC3339 (appendFormatRFC3339 (DateCreated v) True)"
proof -
  from assms(1) obtain b where b: "marshal_Metadata v = Inr b"
    and w': "w' = w\<lparr>written := written w @ Indent (b @ [CHR 0x0A]) [] ''  ''\<rparr>"
    by (auto simp: Encode_cases split: sum.splits option.splits)
  have "is_RFC3339 (appendFormatRFC3339 (DateCreated v) True)"
    using marshal_Metadata_InrD(2,3,4) [OF b] assms(2) by (intro is_RFC3339_format)
  then show ?thesis
    by (simp add: w' Indent_marshal_Metadata [OF b])
qed

lemma example_time_text:
  "appendFormatRFC3339 example_time True = ''2023-03-09T07:05:00.12+01:00''"
  by (simp add: appendFormatRFC3339_def example_time_def appendInt_def appendNano_def
        appendZone_def trim_zeros_def Let_def decimal.simps digit_def)

lemma example_Encode:
  "Encode example_metadata empty_writer = (None, snd (Encode example_metadata empty_writer))"
proof -
  obtain b where "marshal_Metadata example_metadata = Inr b"
    using marshal_Metadata_Inr [of example_metadata] example_time_marshals
    by (auto simp: example_metadata_def)
  then show ?thesis by (simp add: Encode_cases empty_writer_def)
qed

theorem serialized_document_witness:
  "wf_Time (DateCreated example_metadata) \<and>
   written (snd (Encode example_metadata empty_writer)) =
     ''{'' @ [CHR 0x0A]
       @ member_line ''name'' ([CHR 0x22] @ ''default'' @ [CHR 0x22]) @ '','' @ [CHR 0x0A]
       @ member_line ''date_created''
           ([CHR 0x22] @ ''2023-03-09T07:05:00.12+01:00'' @ [CHR 0x22]) @ '','' @ [CHR 0x0A]
       @ member_line ''user'' ([CHR 0x22] @ ''alice'' @ [CHR 0x22]) @ '','' @ [CHR 0x0A]
       @ member_line ''version'' ([CHR 0x22] @ ''3f2a1bc'' @ [CHR 0x22]) @ '','' @ [CHR 0x0A]
       @ member_line ''path''
           ([CHR 0x22] @ ''/home/alice/.elastic-package/profiles/default'' @ [CHR 0x22])
       @ [CHR 0x0A] @ ''}'' @ [CHR 0x0A] \<and>
   is_RFC3339 ''2023-03-09T07:05:00.12+01:00''"
proof -
  have wf: "wf_Time (DateCreated example_metadata)"
    by (simp add: example_metadata_def example_time_def wf_Time_def daysIn_def)
  have t: "appendFormatRFC3339 (DateCreated example_metadata) True =
             ''2023-03-09T07:05:00.12+01:00''"
    using example_time_text by (simp add: example_metadata_def)
  have e: "encode_string (Name example_metadata) = [CHR 0x22] @ ''default'' @ [CHR 0x22]"
    "encode_string (User example_metadata) = [CHR 0x22] @ ''alice'' @ [CHR 0x22]"
    "encode_string (Version example_metadata) = [CHR 0x22] @ ''3f2a1bc'' @ [CHR 0x22]"
    "encode_string (Path example_metadata) =
       [CHR 0x22] @ ''/home/alice/.elastic-package/profiles/default'' @ [CHR 0x22]"
    by (simp_all add: example_metadata_def encode_string_def htmlSafeSet_def)
  from serialized_document [OF example_Encode wf] wf show ?thesis
    unfolding t e by (simp add: empty_writer_def)
qed

section \<open>Properties of \<^verbatim>\<open>profiles list\<close>\<close>

lemma profileToList_loop_map:
  "profileToList_loop profiles acc = acc @ map profile_row profiles"
  by (induction profiles arbitrary: acc) simp_all

text \<open>
  Claim C2, as amended. When the location manager and the enumeration succeed, at least
  one profile exists and the format flag holds a value that is neither \<^verbatim>\<open>table\<close> nor
  \<^verbatim>\<open>json\<close>, the command fails with the error \<^verbatim>\<open>format ... not supported\<close> and sends nothing
  to the output.
\<close>

theorem unsupported_format_fails:
  assumes "list_NewLocationManager env = Inr dir"
    and "FetchAllProfiles env dir = Inr ps"
    and "ps \<noteq> []"
    and "Flags_GetString env (ProfileFormatFlagName env) = Inr format"
    and "format \<noteq> ''table''" and "format \<noteq> ''json''"
  shows "profileListCommand env out =
           (Some (FmtErrorf ''format %s not supported'' [ArgString format]), out)"
  using assms by (simp add: profileListCommand_def tableFormat_def jsonFormat_def)

theorem unsupported_format_fails_witness:
  "profileListCommand (xml_env [example_metadata]) [] =
     (Some (FmtErrorf ''format %s not supported'' [ArgString ''xml'']), [])"
  by (rule unsupported_format_fails [where dir = "''/home/alice/.elastic-package/profiles''"
        and ps = "[example_metadata]"])
     (simp_all add: xml_env_def)

text \<open>
  Claim C2 as stated does not hold for an empty profiles root: the command returns before
  it reads the format flag, prints \<^verbatim>\<open>There are no profiles yet.\<close> and succeeds, also when
  the flag holds \<^verbatim>\<open>xml\<close>.
\<close>

theorem unsupported_format_counterexample:
  "Flags_GetString (xml_env []) (ProfileFormatFlagName (xml_env [])) = Inr ''xml'' \<and>
   profileListCommand (xml_env []) [] = (None, [Println ''There are no profiles yet.''])"
  by (simp add: profileListCommand_def xml_env_def)

text \<open>
  Claim C9. The table has the header \<^verbatim>\<open>Name, Date Created, User, Version, Path\<close> and one
  row for each record, in the order of the records; the row of a record holds its name,
  its creation date in the layout \<^verbatim>\<open>time.RFC3339\<close>, its user, its version and its path.
\<close>

theorem table_rows:
  "formatTable ps out =
     (None, out @ [Render \<lparr>header = [''Name'', ''Date Created'', ''User'', ''Version'', ''Path''],
                           auto_merge_cells = False, row_line = True,
                           rows = profileToList ps\<rparr>]) \<and>
   length (profileToList ps) = length ps \<and>
   profileToList ps =
     map (\<lambda>p. [Name p, Format_RFC3339 (DateCreated p), User p, Version p, Path p]) ps"
  by (simp add: formatTable_def profileToList_def profileToList_loop_map profile_row_def)

end
